theory Spec2Isabelle
  imports Complex_Main
begin

section \<open>Numbers, arrays and errors\<close>

text \<open>
  The two scripts compute with Python floats and numpy float64 arrays. A finite float is
  modelled by the real number it stands for, so rounding, overflow and underflow are not
  part of the model. What numpy does where real arithmetic has no answer is kept: a
  division by zero and the square root of a negative number do not raise, they give
  \<^verbatim>\<open>inf\<close> or \<^verbatim>\<open>nan\<close> (with a warning), and every later operation on such a value is again
  \<^verbatim>\<open>inf\<close> or \<^verbatim>\<open>nan\<close>. Both are the one value \<open>NonFinite\<close> here: none of the modelled lines
  divides by a value that can be infinite, the one operation that would lead from
  \<^verbatim>\<open>inf\<close> back to a finite number. A comparison with \<^verbatim>\<open>nan\<close> is false.

  A division of two Python floats (not numpy values) raises \<^verbatim>\<open>ZeroDivisionError\<close>.
\<close>

datatype npfloat = Fin real | NonFinite

datatype py_error = ZeroDivisionError | IndexError

fun np_add :: "npfloat \<Rightarrow> npfloat \<Rightarrow> npfloat" where
  "np_add (Fin a) (Fin b) = Fin (a + b)"
| "np_add _ _ = NonFinite"

fun np_sub :: "npfloat \<Rightarrow> npfloat \<Rightarrow> npfloat" where
  "np_sub (Fin a) (Fin b) = Fin (a - b)"
| "np_sub _ _ = NonFinite"

fun np_mul :: "npfloat \<Rightarrow> npfloat \<Rightarrow> npfloat" where
  "np_mul (Fin a) (Fin b) = Fin (a * b)"
| "np_mul _ _ = NonFinite"

fun np_div :: "npfloat \<Rightarrow> npfloat \<Rightarrow> npfloat" where
  "np_div (Fin a) (Fin b) = (if b = 0 then NonFinite else Fin (a / b))"
| "np_div _ _ = NonFinite"

fun np_square :: "npfloat \<Rightarrow> npfloat" where
  "np_square (Fin a) = Fin (a\<^sup>2)"
| "np_square NonFinite = NonFinite"

fun np_sqrt :: "npfloat \<Rightarrow> npfloat" where
  "np_sqrt (Fin a) = (if a < 0 then NonFinite else Fin (sqrt a))"
| "np_sqrt NonFinite = NonFinite"

definition py_div :: "real \<Rightarrow> real \<Rightarrow> py_error + real" where
  "py_div a b = (if b = 0 then Inl ZeroDivisionError else Inr (a / b))"

text \<open>
  \<^verbatim>\<open>np.linspace(start, stop, num)\<close> with its default \<^verbatim>\<open>endpoint=True\<close>: \<open>num\<close> values
  \<open>start + i * step\<close> with \<open>step = (stop - start) / (num - 1)\<close>; one value \<open>start\<close> when
  \<open>num = 1\<close>, none when \<open>num = 0\<close>.
\<close>

definition linspace :: "real \<Rightarrow> real \<Rightarrow> nat \<Rightarrow> real list" where
  "linspace start stop num =
     (if num = 1 then [start]
      else map (\<lambda>i. start + real i * ((stop - start) / real (num - 1))) [0..<num])"

text \<open>Boolean-mask indexing \<^verbatim>\<open>a[valid]\<close>: the entries of \<open>a\<close> whose mask entry is true.\<close>

definition mask :: "'a list \<Rightarrow> bool list \<Rightarrow> 'a list" where
  "mask a valid = map fst (filter snd (zip a valid))"

text \<open>
  \<^verbatim>\<open>np.isclose(a, b, atol=atol)\<close> on finite values, with numpy's default
  \<^verbatim>\<open>rtol=1e-05\<close>: \<open>|a - b| \<le> atol + rtol * |b|\<close>.
\<close>

definition isclose :: "real \<Rightarrow> real \<Rightarrow> real \<Rightarrow> bool" where
  "isclose a b atol = (\<bar>a - b\<bar> \<le> atol + (1 / 100000) * \<bar>b\<bar>)"

section \<open>simulator_with_graphs.py\<close>

subsection \<open>safe_fsolve\<close>

text \<open>
  \<^verbatim>\<open>scipy.optimize.fsolve\<close> is a library routine, so it is a parameter of the model: given the
  function and the starting point, a call either raises or returns
  \<^verbatim>\<open>(root, info, ier, msg)\<close>, of which the code reads the array \<^verbatim>\<open>root\<close> (\<open>root_arr\<close> below) and the flag \<open>ier\<close>.
\<close>

datatype fsolve_outcome = Raised | Returned "npfloat list" int

type_synonym fsolve_fn = "(npfloat \<Rightarrow> npfloat) \<Rightarrow> real \<Rightarrow> fsolve_outcome"

text \<open>
  The body of the \<^verbatim>\<open>try\<close> block: \<open>Inl ()\<close> is an exception leaving it (from \<^verbatim>\<open>fsolve\<close>, or
  the \<^verbatim>\<open>IndexError\<close> of \<^verbatim>\<open>root[0]\<close> on an empty array), \<open>Inr None\<close> is Python's \<^verbatim>\<open>None\<close>.
\<close>

definition safe_fsolve_try :: "fsolve_fn \<Rightarrow> (npfloat \<Rightarrow> npfloat) \<Rightarrow> real \<Rightarrow> unit + npfloat option" where
  "safe_fsolve_try fsolve func x0 =
     (case fsolve func x0 of
        Raised \<Rightarrow> Inl ()
      | Returned root_arr ier \<Rightarrow>
          if ier = 1 then (case root_arr of [] \<Rightarrow> Inl () | v # _ \<Rightarrow> Inr (Some v))
          else Inr None)"

text \<open>The bare \<^verbatim>\<open>except:\<close> turns every exception into \<^verbatim>\<open>None\<close>.\<close>

definition safe_fsolve :: "fsolve_fn \<Rightarrow> (npfloat \<Rightarrow> npfloat) \<Rightarrow> real \<Rightarrow> npfloat option" where
  "safe_fsolve fsolve func x0 =
     (case safe_fsolve_try fsolve func x0 of Inl _ \<Rightarrow> None | Inr res \<Rightarrow> res)"

subsection \<open>kepler_combined\<close>

text \<open>Line 24: the angles \<^verbatim>\<open>np.linspace(0, 2 * np.pi, 1000)\<close>.\<close>

definition theta_full :: "real list" where
  "theta_full = linspace 0 (2 * pi) 1000"

text \<open>Lines 33 to 37: the angles kept, by the mask \<^verbatim>\<open>valid\<close> when \<open>epsilon \<ge> 1\<close>.\<close>

definition kept_theta :: "real \<Rightarrow> real list" where
  "kept_theta epsilon =
     (if epsilon \<ge> 1
      then mask theta_full (map (\<lambda>t. \<bar>1 + epsilon * cos t\<bar> > 1 / 1000) theta_full)
      else theta_full)"

text \<open>
  Line 40, one entry: \<^verbatim>\<open>np.where(np.abs(denom) > 1e-5, p / denom, np.nan)\<close>. The quotient is
  computed for every entry and used where the test holds.
\<close>

definition radius :: "real \<Rightarrow> real \<Rightarrow> npfloat" where
  "radius p d = (if \<bar>d\<bar> > 1 / 100000 then np_div (Fin p) (Fin d) else NonFinite)"

text \<open>Lines 55 and 56: \<^verbatim>\<open>veff_eq\<close>, which \<^verbatim>\<open>fsolve\<close> calls on numpy values.\<close>

definition veff_eq :: "real \<Rightarrow> real \<Rightarrow> real \<Rightarrow> real \<Rightarrow> npfloat \<Rightarrow> npfloat" where
  "veff_eq mu Lz alpha E rval =
     np_sub (np_sub (np_div (Fin (Lz\<^sup>2)) (np_mul (Fin (2 * mu)) (np_square rval)))
                    (np_div (Fin alpha) rval))
            (Fin E)"

text \<open>Lines 80 to 85: the label of the orbit.\<close>

definition orbit_type :: "real \<Rightarrow> string" where
  "orbit_type epsilon =
     (if epsilon < 1 then ''Ellipse''
      else if isclose epsilon 1 (1 / 100) then ''Parabola''
      else ''Hyperbola'')"

text \<open>
  What one call computes: the local variables of \<^verbatim>\<open>kepler_combined\<close>, each under its name
  with the prefix \<open>kc_\<close>. The arrays \<^verbatim>\<open>r_plot\<close>, \<^verbatim>\<open>Vcentral\<close>, \<^verbatim>\<open>Veff\<close> and
  \<^verbatim>\<open>speed\<close> and the calls into matplotlib only draw and are left out.
\<close>

record orbit =
  kc_mu :: real
  kc_arg :: real
  kc_epsilon :: real
  kc_p :: real
  kc_theta :: "real list"
  kc_denom :: "real list"
  kc_r :: "npfloat list"
  kc_x2 :: "npfloat list"
  kc_y2 :: "npfloat list"
  kc_dr_dtheta :: "npfloat list"
  kc_theta_dot :: "npfloat list"
  kc_r_dot :: "npfloat list"
  kc_T :: "npfloat list"
  kc_U :: "npfloat list"
  kc_E_total :: "npfloat list"
  kc_rmin :: "npfloat option"
  kc_rmax :: "npfloat option"
  kc_orbit_type :: string

text \<open>Lines 33 to 59 and 80 to 85, once \<open>mu\<close>, \<open>arg\<close>, \<open>epsilon\<close> and \<open>p\<close> are known.\<close>

definition build_orbit :: "fsolve_fn \<Rightarrow> real \<Rightarrow> real \<Rightarrow> real \<Rightarrow> real \<Rightarrow> real \<Rightarrow> real \<Rightarrow> real \<Rightarrow> orbit" where
  "build_orbit fsolve mu arg epsilon p Lz alpha E =
     (let theta = kept_theta epsilon;
          denom = map (\<lambda>t. 1 + epsilon * cos t) theta;
          r = map (radius p) denom;
          x2 = map2 (\<lambda>ri t. np_mul ri (Fin (cos t))) r theta;
          y2 = map2 (\<lambda>ri t. np_mul ri (Fin (sin t))) r theta;
          dr_dtheta = map (\<lambda>t. np_div (Fin (p * epsilon * sin t)) (Fin ((1 + epsilon * cos t)\<^sup>2))) theta;
          theta_dot = map (\<lambda>ri. np_div (Fin Lz) (np_mul (Fin mu) (np_square ri))) r;
          r_dot = map2 np_mul dr_dtheta theta_dot;
          T = map2 (\<lambda>rd (ri, td).
                np_mul (Fin (0.5 * mu)) (np_add (np_square rd) (np_mul (np_square ri) (np_square td))))
                r_dot (zip r theta_dot);
          U = map (\<lambda>ri. np_div (Fin (- alpha)) ri) r;
          E_total = map2 np_add T U;
          rmin = safe_fsolve fsolve (veff_eq mu Lz alpha E) 0.5;
          rmax = safe_fsolve fsolve (veff_eq mu Lz alpha E) 5.0
      in \<lparr> kc_mu = mu, kc_arg = arg, kc_epsilon = epsilon, kc_p = p,
           kc_theta = theta, kc_denom = denom, kc_r = r, kc_x2 = x2, kc_y2 = y2,
           kc_dr_dtheta = dr_dtheta, kc_theta_dot = theta_dot, kc_r_dot = r_dot,
           kc_T = T, kc_U = U, kc_E_total = E_total, kc_rmin = rmin, kc_rmax = rmax,
           kc_orbit_type = orbit_type epsilon \<rparr>)"

text \<open>
  Lines 21 to 32, in exact arithmetic. The arguments are the Python floats of the sliders,
  so the three divisions raise on a zero divisor. \<open>Inr None\<close> is the early \<^verbatim>\<open>return\<close> after
  the message "Invalid orbit"; \<open>Inr (Some orb)\<close> is a call that goes on to compute and draw
  \<open>orb\<close>. The test \<open>arg < 0\<close> of line 27 reads a rounded double, and at inputs whose exact
  \<open>arg\<close> is within rounding of 0 the sign is decided by the rounding: \<open>kepler_geometry\<close>
  below has lines 22 to 32 with that rounding.
\<close>

definition kepler_combined :: "fsolve_fn \<Rightarrow> real \<Rightarrow> real \<Rightarrow> real \<Rightarrow> real \<Rightarrow> real \<Rightarrow> py_error + orbit option" where
  "kepler_combined fsolve m1 m2 Lz alpha E =
     (case py_div (m1 * m2) (m1 + m2) of
        Inl e \<Rightarrow> Inl e
      | Inr mu \<Rightarrow>
          (case py_div (2 * E * Lz\<^sup>2) (mu * alpha\<^sup>2) of
             Inl e \<Rightarrow> Inl e
           | Inr q \<Rightarrow>
               let arg = 1 + q in
               if arg < 0 then Inr None
               else
                 let epsilon = sqrt arg in
                 (case py_div (Lz\<^sup>2) (mu * alpha) of
                    Inl e \<Rightarrow> Inl e
                  | Inr p \<Rightarrow> Inr (Some (build_orbit fsolve mu arg epsilon p Lz alpha E)))))"

subsection \<open>kepler_combined in double arithmetic: the geometry\<close>





section \<open>animated_orbit.py\<close>

subsection \<open>The orbit of the script\<close>

text \<open>
  Lines 13 to 29 as a function of the five parameters that lines 7 to 11 set. The fields
  are the module's variables under the prefix \<open>ao_\<close>; \<open>ao_x\<close> and \<open>ao_y\<close> are \<^verbatim>\<open>x\<close> and \<^verbatim>\<open>y\<close>
  after their second assignment (lines 28 and 29). \<open>Inr None\<close> is the branch that only
  prints "Unphysical parameters".
\<close>

record anim =
  ao_mu :: real
  ao_arg :: real
  ao_p :: real
  ao_epsilon :: real
  ao_theta :: "real list"
  ao_denom :: "real list"
  ao_r :: "npfloat list"
  ao_valid :: "bool list"
  ao_x :: "npfloat list"
  ao_y :: "npfloat list"

text \<open>Lines 22 to 29, once \<open>mu\<close>, \<open>arg\<close>, \<open>p\<close> and \<open>epsilon\<close> are known.\<close>

definition sample_orbit :: "real \<Rightarrow> real \<Rightarrow> real \<Rightarrow> real \<Rightarrow> anim" where
  "sample_orbit mu arg p epsilon =
     (let theta = linspace 0 (2 * pi) 1000;
          denom = map (\<lambda>t. 1 + epsilon * cos t) theta;
          r = map (\<lambda>d. if \<bar>d\<bar> > 1 / 1000 then np_div (Fin p) (Fin d) else NonFinite) denom;
          valid = map (\<lambda>d. d > 0) denom;
          x = map2 (\<lambda>ri t. np_mul ri (Fin (cos t))) (mask r valid) (mask theta valid);
          y = map2 (\<lambda>ri t. np_mul ri (Fin (sin t))) (mask r valid) (mask theta valid)
      in \<lparr> ao_mu = mu, ao_arg = arg, ao_p = p, ao_epsilon = epsilon,
           ao_theta = theta, ao_denom = denom, ao_r = r,
           ao_valid = valid, ao_x = x, ao_y = y \<rparr>)"

text \<open>Lines 13 to 20: the divisions are divisions of Python numbers and raise on zero.\<close>

definition orbit_setup :: "real \<Rightarrow> real \<Rightarrow> real \<Rightarrow> real \<Rightarrow> real \<Rightarrow> py_error + anim option" where
  "orbit_setup m1 m2 Lz alpha E =
     (case py_div (m1 * m2) (m1 + m2) of
        Inl e \<Rightarrow> Inl e
      | Inr mu \<Rightarrow>
          (case py_div (2 * E * Lz\<^sup>2) (mu * alpha\<^sup>2) of
             Inl e \<Rightarrow> Inl e
           | Inr q \<Rightarrow>
               let arg = 1 + q in
               if arg < 0 then Inr None
               else
                 (case py_div (Lz\<^sup>2) (mu * alpha) of
                    Inl e \<Rightarrow> Inl e
                  | Inr p \<Rightarrow> Inr (Some (sample_orbit mu arg p (sqrt arg))))))"

text \<open>Lines 7 to 11: \<^verbatim>\<open>m1 = 1\<close>, \<^verbatim>\<open>m2 = 6\<close>, \<^verbatim>\<open>Lz = 2.0\<close>, \<^verbatim>\<open>alpha = 2.0\<close>, \<^verbatim>\<open>E = -0.20\<close>.\<close>

definition animated_orbit :: "py_error + anim option" where
  "animated_orbit = orbit_setup 1 6 2 2 (- (2 / 10))"

subsection \<open>update: the velocity arrow of one frame\<close>

text \<open>Python's \<^verbatim>\<open>xs[i]\<close>: a negative index counts from the end, an index out of range raises.\<close>

definition py_nth :: "'a list \<Rightarrow> int \<Rightarrow> py_error + 'a" where
  "py_nth xs i =
     (if 0 \<le> i \<and> i < int (length xs) then Inr (xs ! nat i)
      else if - int (length xs) \<le> i \<and> i < 0 then Inr (xs ! nat (i + int (length xs)))
      else Inl IndexError)"

text \<open>An exception ends the computation; a value goes on to the next statement.\<close>

definition then_do :: "py_error + 'a \<Rightarrow> ('a \<Rightarrow> py_error + 'b) \<Rightarrow> py_error + 'b" where
  "then_do res f = (case res of Inl e \<Rightarrow> Inl e | Inr v \<Rightarrow> f v)"

text \<open>Lines 52 to 55: the speed at radius \<open>r_i\<close>, a numpy value.\<close>

definition v_mag :: "real \<Rightarrow> real \<Rightarrow> real \<Rightarrow> npfloat \<Rightarrow> npfloat" where
  "v_mag E alpha mu r_i =
     (if r_i = Fin 0 then Fin 0
      else np_sqrt (np_div (np_mul (Fin 2) (np_add (Fin E) (np_div (Fin alpha) r_i))) (Fin mu)))"

text \<open>
  Lines 58 to 63, for one of the two arrays: the difference of two adjacent samples,
  forwards but for the last frame. The test reads \<^verbatim>\<open>len(x)\<close> for both arrays.
\<close>

definition tangent :: "int \<Rightarrow> npfloat list \<Rightarrow> int \<Rightarrow> py_error + npfloat" where
  "tangent len_x x i =
     (if i < len_x - 1
      then then_do (py_nth x (i + 1)) (\<lambda>a. then_do (py_nth x i) (\<lambda>b. Inr (np_sub a b)))
      else then_do (py_nth x i) (\<lambda>a. then_do (py_nth x (i - 1)) (\<lambda>b. Inr (np_sub a b))))"

text \<open>Lines 65 to 70: the arrow \<open>(vx, vy)\<close> from the speed and the tangent.\<close>

definition arrow :: "npfloat \<Rightarrow> npfloat \<Rightarrow> npfloat \<Rightarrow> npfloat \<times> npfloat" where
  "arrow v dx dy =
     (let tangent_norm = np_sqrt (np_add (np_square dx) (np_square dy)) in
      if tangent_norm = Fin 0 then (Fin 0, Fin 0)
      else (np_div (np_mul v dx) tangent_norm, np_div (np_mul v dy) tangent_norm))"

text \<open>
  Lines 47 to 70 of \<^verbatim>\<open>update\<close>, with the module's \<^verbatim>\<open>E\<close>, \<^verbatim>\<open>alpha\<close>, \<^verbatim>\<open>mu\<close>, \<^verbatim>\<open>x\<close> and \<^verbatim>\<open>y\<close> as
  arguments: the arrow drawn at frame \<open>i\<close>, or the exception of an index out of range.
\<close>

definition update_velocity ::
  "real \<Rightarrow> real \<Rightarrow> real \<Rightarrow> npfloat list \<Rightarrow> npfloat list \<Rightarrow> int \<Rightarrow> py_error + npfloat \<times> npfloat" where
  "update_velocity E alpha mu x y i =
     then_do (py_nth x i) (\<lambda>xi.
     then_do (py_nth y i) (\<lambda>yi.
       let r_i = np_sqrt (np_add (np_square xi) (np_square yi));
           v = v_mag E alpha mu r_i
       in then_do (tangent (int (length x)) x i) (\<lambda>dx.
          then_do (tangent (int (length x)) y i) (\<lambda>dy.
            Inr (arrow v dx dy)))))"

section \<open>The energy check and concrete runs\<close>

text \<open>
  The energy property of the specification on one sample: \<open>|T + U - E| < 1e-6\<close>, with
  the arithmetic and the comparison of numpy, so that the check fails on a sample whose
  energies are not finite.
\<close>

definition energy_consistent :: "npfloat \<Rightarrow> npfloat \<Rightarrow> real \<Rightarrow> bool" where
  "energy_consistent T U E =
     (case np_sub (np_add T U) (Fin E) of
        Fin diff \<Rightarrow> \<bar>diff\<bar> < 1 / 1000000
      | NonFinite \<Rightarrow> False)"

text \<open>Solvers to run \<open>kepler_combined\<close> with: one that always raises, and one that
  converges (to 7) from the starting point 5 only.\<close>

definition fsolve_raises :: fsolve_fn where
  "fsolve_raises func x0 = Raised"

definition fsolve_far_only :: fsolve_fn where
  "fsolve_far_only func x0 = (if x0 = 5 then Returned [Fin 7] 1 else Raised)"

text \<open>
  The orbit of \<^verbatim>\<open>kepler_combined(2, 2, 0.1, 100, -0.1)\<close>, values the sliders reach:
  \<open>mu = 1\<close>, \<open>arg = 1 - 2e-7\<close>, \<open>p = 1e-4\<close>, an ellipse a hair away from a parabola.
\<close>

definition near_parabolic :: orbit where
  "near_parabolic =
     build_orbit fsolve_raises 1 (1 - 2 / 10 ^ 7) (sqrt (1 - 2 / 10 ^ 7)) (1 / 10 ^ 4) (1 / 10) 100 (- (1 / 10))"

text \<open>
  The orbit of \<^verbatim>\<open>kepler_combined(2, 2, 1, 1, 7.5)\<close>: \<open>mu = 1\<close>, \<open>arg = 16\<close>, \<open>epsilon = 4\<close>,
  \<open>p = 1\<close>, a hyperbola.
\<close>

definition hyperbola :: orbit where
  "hyperbola = build_orbit fsolve_raises 1 16 4 1 1 1 (15 / 2)"

text \<open>The orbit of the animated script: \<open>mu = 6/7\<close>, \<open>arg = 8/15\<close>, \<open>p = 7/3\<close>.\<close>

definition script_orbit :: anim where
  "script_orbit = sample_orbit (6 / 7) (8 / 15) (7 / 3) (sqrt (8 / 15))"

section \<open>Arrays: the sample angles and the mask\<close>

lemma length_linspace: "length (linspace a b n) = n"
  by (simp add: linspace_def)

lemma nth_linspace:
  "i < n \<Longrightarrow> n \<noteq> 1 \<Longrightarrow> linspace a b n ! i = a + real i * ((b - a) / real (n - 1))"
  by (simp add: linspace_def)

lemma mask_map_filter: "mask xs (map P xs) = filter P xs"
  by (induction xs) (simp_all add: mask_def)

lemma length_theta_full: "length theta_full = 1000"
  by (simp add: theta_full_def length_linspace)

lemma nth_theta_full: "i < 1000 \<Longrightarrow> theta_full ! i = real i * (2 * pi / 999)"
  by (simp add: theta_full_def nth_linspace)

lemma theta_full_range:
  assumes "t \<in> set theta_full"
  shows "0 \<le> t \<and> t \<le> 2 * pi"
proof -
  from assms obtain i where i: "i < 1000" and t: "t = theta_full ! i"
    by (auto simp: in_set_conv_nth length_theta_full)
  have "real i \<le> 999" using i by simp
  then have "real i * (2 * pi / 999) \<le> 999 * (2 * pi / 999)"
    by (intro mult_right_mono) simp_all
  then show ?thesis
    using i by (simp add: t nth_theta_full)
qed

lemma kept_theta_filter:
  "kept_theta e =
     (if e \<ge> 1 then filter (\<lambda>t. \<bar>1 + e * cos t\<bar> > 1 / 1000) theta_full else theta_full)"
  by (simp add: kept_theta_def mask_map_filter)

section \<open>What kepler_combined returns\<close>

lemma kepler_combined_SomeD:
  assumes "kepler_combined fs m1 m2 Lz alpha E = Inr (Some orb)"
  shows "\<exists>mu arg. m1 + m2 \<noteq> 0 \<and> mu = m1 * m2 / (m1 + m2) \<and> mu * alpha\<^sup>2 \<noteq> 0
           \<and> arg = 1 + 2 * E * Lz\<^sup>2 / (mu * alpha\<^sup>2) \<and> 0 \<le> arg
           \<and> orb = build_orbit fs mu arg (sqrt arg) (Lz\<^sup>2 / (mu * alpha)) Lz alpha E"
  using assms
  by (auto simp: kepler_combined_def py_div_def Let_def split: if_splits)

lemma kepler_combined_pos:
  assumes "0 < m1" "0 < m2" "0 < alpha"
  shows "kepler_combined fs m1 m2 Lz alpha E =
    (let mu = m1 * m2 / (m1 + m2); arg = 1 + 2 * E * Lz\<^sup>2 / (mu * alpha\<^sup>2) in
     if arg < 0 then Inr None
     else Inr (Some (build_orbit fs mu arg (sqrt arg) (Lz\<^sup>2 / (mu * alpha)) Lz alpha E)))"
proof -
  have "m1 + m2 \<noteq> 0" using assms by simp
  moreover have "m1 * m2 / (m1 + m2) > 0" using assms by simp
  ultimately show ?thesis using assms
    by (simp add: kepler_combined_def py_div_def Let_def)
qed

lemma build_orbit_scalars:
  "kc_mu (build_orbit fs mu arg e p Lz alpha E) = mu"
  "kc_arg (build_orbit fs mu arg e p Lz alpha E) = arg"
  "kc_epsilon (build_orbit fs mu arg e p Lz alpha E) = e"
  "kc_p (build_orbit fs mu arg e p Lz alpha E) = p"
  "kc_orbit_type (build_orbit fs mu arg e p Lz alpha E) = orbit_type e"
  "kc_rmin (build_orbit fs mu arg e p Lz alpha E) = safe_fsolve fs (veff_eq mu Lz alpha E) 0.5"
  "kc_rmax (build_orbit fs mu arg e p Lz alpha E) = safe_fsolve fs (veff_eq mu Lz alpha E) 5"
  by (simp_all add: build_orbit_def Let_def)

lemma build_orbit_arrays:
  "kc_theta (build_orbit fs mu arg e p Lz alpha E) = kept_theta e"
  "kc_denom (build_orbit fs mu arg e p Lz alpha E) = map (\<lambda>t. 1 + e * cos t) (kept_theta e)"
  "kc_r (build_orbit fs mu arg e p Lz alpha E) = map (\<lambda>t. radius p (1 + e * cos t)) (kept_theta e)"
  by (simp_all add: build_orbit_def Let_def)

lemma build_orbit_nth:
  fixes fs :: fsolve_fn and mu arg e p Lz alpha E :: real
  assumes "i < length (kept_theta e)"
  defines "t \<equiv> kept_theta e ! i"
  defines "orb \<equiv> build_orbit fs mu arg e p Lz alpha E"
  shows "kc_theta orb ! i = t"
    and "kc_denom orb ! i = 1 + e * cos t"
    and "kc_r orb ! i = radius p (1 + e * cos t)"
    and "kc_dr_dtheta orb ! i = np_div (Fin (p * e * sin t)) (Fin ((1 + e * cos t)\<^sup>2))"
    and "kc_theta_dot orb ! i = np_div (Fin Lz) (np_mul (Fin mu) (np_square (kc_r orb ! i)))"
    and "kc_r_dot orb ! i = np_mul (kc_dr_dtheta orb ! i) (kc_theta_dot orb ! i)"
    and "kc_T orb ! i = np_mul (Fin (0.5 * mu))
           (np_add (np_square (kc_r_dot orb ! i))
                   (np_mul (np_square (kc_r orb ! i)) (np_square (kc_theta_dot orb ! i))))"
    and "kc_U orb ! i = np_div (Fin (- alpha)) (kc_r orb ! i)"
    and "kc_E_total orb ! i = np_add (kc_T orb ! i) (kc_U orb ! i)"
  using assms(1) unfolding t_def orb_def
  by (simp_all add: build_orbit_def Let_def)

lemma theta_full_Cons: "theta_full = 0 # tl theta_full"
proof -
  have "theta_full \<noteq> []" using length_theta_full by auto
  moreover have "hd theta_full = 0"
    using length_theta_full nth_theta_full[of 0] by (simp add: hd_conv_nth \<open>theta_full \<noteq> []\<close>)
  ultimately show ?thesis by (metis list.collapse)
qed

lemma kept_theta_Cons:
  assumes "0 \<le> e"
  shows "kept_theta e = 0 # tl (kept_theta e)"
proof (cases "1 \<le> e")
  case True
  have "kept_theta e = filter (\<lambda>t. \<bar>1 + e * cos t\<bar> > 1 / 1000) (0 # tl theta_full)"
    using True theta_full_Cons by (simp add: kept_theta_filter)
  also have "\<dots> = 0 # filter (\<lambda>t. \<bar>1 + e * cos t\<bar> > 1 / 1000) (tl theta_full)"
    using assms by simp
  finally show ?thesis by simp
next
  case False
  then show ?thesis using theta_full_Cons by (simp add: kept_theta_filter)
qed

lemma kept_theta_nonempty: "0 \<le> e \<Longrightarrow> kept_theta e \<noteq> []"
  using kept_theta_Cons by fastforce

lemma kept_theta_subset: "set (kept_theta e) \<subseteq> set theta_full"
  by (auto simp: kept_theta_filter)

lemma kept_theta_open:
  assumes "1 \<le> e" "t \<in> set (kept_theta e)"
  shows "\<bar>1 + e * cos t\<bar> > 1 / 1000"
  using assms by (simp add: kept_theta_filter)

lemma radius_Fin: "\<bar>d\<bar> > 1 / 100000 \<Longrightarrow> radius p d = Fin (p / d)"
  by (auto simp: radius_def)

lemma radius_NonFinite: "\<bar>d\<bar> \<le> 1 / 100000 \<Longrightarrow> radius p d = NonFinite"
  by (simp add: radius_def)

lemma closed_denom_lower:
  fixes e t :: real
  assumes "0 \<le> e"
  shows "1 - e \<le> 1 + e * cos t"
proof -
  have "- 1 \<le> cos t" by simp
  then have "e * (- 1) \<le> e * cos t"
    using assms by (rule mult_left_mono)
  then show ?thesis by simp
qed

lemma parabola_run:
  "kepler_combined fsolve_raises 2 2 1 1 0 = Inr (Some (build_orbit fsolve_raises 1 1 1 1 1 1 0))"
  by (simp add: kepler_combined_pos Let_def)

section \<open>Concrete runs\<close>

lemma cos_lower_quadratic:
  fixes x :: real
  shows "1 - x\<^sup>2 / 2 \<le> cos x"
proof -
  have "\<bar>sin (x / 2)\<bar> \<le> \<bar>x / 2\<bar>"
    by (rule abs_sin_x_le_abs_x)
  then have "(sin (x / 2))\<^sup>2 \<le> (x / 2)\<^sup>2"
    by (simp only: abs_le_square_iff)
  moreover have "cos x = 1 - 2 * (sin (x / 2))\<^sup>2"
    using cos_double_sin[of "x / 2"] by simp
  ultimately show ?thesis
    by (simp add: power_divide)
qed

lemma cos_theta_499: "cos (theta_full ! 499) \<le> - (1 - 8 / 998001)"
proof -
  have t: "theta_full ! 499 = pi - pi / 999"
    by (simp add: nth_theta_full)
  have "pi / 999 \<le> 4 / 999"
    using pi_less_4 by simp
  moreover have "0 \<le> pi / 999" by simp
  ultimately have "(pi / 999)\<^sup>2 \<le> (4 / 999)\<^sup>2"
    by (rule power_mono)
  then have "1 - (4 / 999)\<^sup>2 / 2 \<le> 1 - (pi / 999)\<^sup>2 / 2"
    by simp
  also have "\<dots> \<le> cos (pi / 999)"
    by (rule cos_lower_quadratic)
  finally have "1 - 8 / 998001 \<le> cos (pi / 999)"
    by (simp add: power2_eq_square)
  then show ?thesis
    unfolding t cos_pi_minus by simp
qed

lemma near_parabolic_epsilon:
  "1 - 2 / 10 ^ 7 \<le> sqrt (1 - 2 / 10 ^ 7)" "sqrt (1 - 2 / 10 ^ 7) < (1::real)"
proof -
  show "1 - 2 / 10 ^ 7 \<le> sqrt (1 - 2 / 10 ^ 7)"
    by (rule real_le_rsqrt) (simp add: power2_eq_square)
  show "sqrt (1 - 2 / 10 ^ 7) < (1::real)"
    by simp
qed

lemma near_parabolic_denom_499:
  defines "d \<equiv> 1 + sqrt (1 - 2 / 10 ^ 7) * cos (theta_full ! 499)"
  shows "0 < d" "d \<le> 1 / 100000"
proof -
  let ?e = "sqrt (1 - 2 / 10 ^ 7) :: real"
  have e0: "0 \<le> ?e" by simp
  have "0 < 1 - ?e" using near_parabolic_epsilon(2) by simp
  also have "1 - ?e \<le> d"
    unfolding d_def using e0 by (rule closed_denom_lower)
  finally show "0 < d" .
  have "?e * cos (theta_full ! 499) \<le> ?e * (- (1 - 8 / 998001))"
    using cos_theta_499 e0 by (rule mult_left_mono)
  also have "\<dots> = - (?e * (1 - 8 / 998001))"
    by simp
  also have "\<dots> \<le> - ((1 - 2 / 10 ^ 7) * (1 - 8 / 998001))"
    using near_parabolic_epsilon(1) by simp
  finally have "d \<le> 1 - (1 - 2 / 10 ^ 7) * (1 - 8 / 998001)"
    by (simp add: d_def)
  also have "\<dots> \<le> 1 / 100000"
    by simp
  finally show "d \<le> 1 / 100000" .
qed

lemma near_parabolic_run:
  "kepler_combined fsolve_raises 2 2 (1 / 10) 100 (- (1 / 10)) = Inr (Some near_parabolic)"
  by (simp add: kepler_combined_pos Let_def near_parabolic_def power2_eq_square)

lemma near_parabolic_theta: "kept_theta (sqrt (1 - 2 / 10 ^ 7)) = theta_full"
  using near_parabolic_epsilon(2) by (simp add: kept_theta_filter)

lemma near_parabolic_r_499: "kc_r near_parabolic ! 499 = NonFinite"
proof -
  have i: "499 < length (kept_theta (sqrt (1 - 2 / 10 ^ 7)))"
    unfolding near_parabolic_theta by (simp add: length_theta_full)
  have "\<bar>1 + sqrt (1 - 2 / 10 ^ 7) * cos (theta_full ! 499)\<bar> \<le> 1 / 100000"
    using near_parabolic_denom_499 by simp
  then show ?thesis
    unfolding near_parabolic_def build_orbit_nth(3)[OF i] near_parabolic_theta
    by (rule radius_NonFinite)
qed

lemma ellipse_run:
  "kepler_combined fsolve_raises 2 2 1 1 (- (3 / 8))
     = Inr (Some (build_orbit fsolve_raises 1 (1 / 4) (1 / 2) 1 1 1 (- (3 / 8))))"
  by (simp add: kepler_combined_pos Let_def real_sqrt_divide)

lemma mask_map_map_filter: "mask (map f xs) (map P xs) = map f (filter P xs)"
  by (induction xs) (simp_all add: mask_def)

lemma sample_orbit_arrays:
  "ao_theta (sample_orbit mu arg p e) = theta_full"
  "ao_denom (sample_orbit mu arg p e) = map (\<lambda>t. 1 + e * cos t) theta_full"
  "ao_valid (sample_orbit mu arg p e) = map (\<lambda>t. 0 < 1 + e * cos t) theta_full"
  "ao_epsilon (sample_orbit mu arg p e) = e"
  "ao_p (sample_orbit mu arg p e) = p"
  "ao_mu (sample_orbit mu arg p e) = mu"
  "ao_arg (sample_orbit mu arg p e) = arg"
  by (simp_all add: sample_orbit_def Let_def theta_full_def)

lemma sqrt_4: "sqrt 4 = (2::real)"
  by (rule real_sqrt_unique) simp_all

lemma script_epsilon_bounds:
  "7302 / 10000 < sqrt (8 / 15)" "sqrt (8 / 15) < (7304 / 10000 :: real)"
proof -
  show "7302 / 10000 < sqrt (8 / 15)"
    by (rule real_less_rsqrt) (simp add: power2_eq_square)
  show "sqrt (8 / 15) < (7304 / 10000 :: real)"
    by (rule real_less_lsqrt) (simp_all add: power2_eq_square)
qed

lemma script_run: "animated_orbit = Inr (Some script_orbit)"
  by (simp add: animated_orbit_def orbit_setup_def py_div_def Let_def script_orbit_def)

section \<open>Rounding to a double\<close>









section \<open>Validation (C1)\<close>



































section \<open>Open orbits: the filter and the radius (C10)\<close>

text \<open>
  C10: in \<open>kepler_combined\<close>, when \<open>epsilon \<ge> 1\<close>, every angle that survives the filter has
  \<open>|1 + epsilon * cos theta| > 1e-3 > 1e-5\<close>, so the guarded radius never takes its
  \<^verbatim>\<open>nan\<close> branch: every retained radius is the quotient \<open>p / denom\<close>.
\<close>

theorem open_orbit_radius_is_quotient:
  assumes "kepler_combined fs m1 m2 Lz alpha E = Inr (Some orb)"
    and "1 \<le> kc_epsilon orb"
    and "i < length (kc_theta orb)"
  shows "1 / 1000 < \<bar>1 + kc_epsilon orb * cos (kc_theta orb ! i)\<bar>
     \<and> kc_denom orb ! i = 1 + kc_epsilon orb * cos (kc_theta orb ! i)
     \<and> 1 / 100000 < \<bar>kc_denom orb ! i\<bar>
     \<and> kc_r orb ! i = radius (kc_p orb) (kc_denom orb ! i)
     \<and> kc_r orb ! i = Fin (kc_p orb / kc_denom orb ! i)
     \<and> kc_r orb ! i \<noteq> NonFinite"
proof -
  from kepler_combined_SomeD[OF assms(1)] obtain mu arg where
    orb: "orb = build_orbit fs mu arg (sqrt arg) (Lz\<^sup>2 / (mu * alpha)) Lz alpha E"
    by blast
  have e: "1 \<le> sqrt arg"
    using assms(2) by (simp add: orb build_orbit_scalars)
  have i: "i < length (kept_theta (sqrt arg))"
    using assms(3) by (simp add: orb build_orbit_arrays)
  then have "kept_theta (sqrt arg) ! i \<in> set (kept_theta (sqrt arg))"
    by (rule nth_mem)
  then have d: "1 / 1000 < \<bar>1 + sqrt arg * cos (kept_theta (sqrt arg) ! i)\<bar>"
    by (rule kept_theta_open[OF e])
  then have d': "1 / 100000 < \<bar>1 + sqrt arg * cos (kept_theta (sqrt arg) ! i)\<bar>"
    by simp
  show ?thesis
    using d d' by (simp add: orb build_orbit_scalars build_orbit_nth[OF i] radius_Fin)
qed

theorem open_orbit_radius_is_quotient_witness:
  "kc_r (build_orbit fsolve_raises 1 1 1 1 1 1 0) ! 0 = Fin (1 / 2)
   \<and> 1 / 1000 < \<bar>1 + 1 * cos (kc_theta (build_orbit fsolve_raises 1 1 1 1 1 1 0) ! 0)\<bar>"
proof -
  have k: "kept_theta 1 = 0 # tl (kept_theta 1)"
    by (rule kept_theta_Cons) simp
  have t0: "kept_theta 1 ! 0 = 0"
    by (subst k) simp
  have l: "0 < length (kept_theta 1)"
    by (subst k) simp
  have i: "0 < length (kc_theta (build_orbit fsolve_raises 1 1 1 1 1 1 0))"
    using l by (simp add: build_orbit_arrays)
  have e: "1 \<le> kc_epsilon (build_orbit fsolve_raises 1 1 1 1 1 1 0)"
    by (simp add: build_orbit_scalars)
  show ?thesis
    using open_orbit_radius_is_quotient[OF parabola_run e i]
    by (simp add: build_orbit_scalars build_orbit_nth[OF l] t0)
qed

section \<open>Closed orbits: all angles kept (C8)\<close>

text \<open>
  C8, as the claim states it, fails in its last part: on the branch \<open>epsilon < 1\<close> a kept
  sample can have a \<^verbatim>\<open>nan\<close> radius. For \<^verbatim>\<open>kepler_combined(2, 2, 0.1, 100, -0.1)\<close> the
  eccentricity is below 1, all 1000 angles are kept, and at the angle of index 499, next
  to \<open>\<pi>\<close>, the denominator is positive but at most \<open>1e-5\<close>, so \<^verbatim>\<open>np.where\<close> stores \<^verbatim>\<open>nan\<close>.
\<close>

theorem closed_orbit_nan_radius:
  "kepler_combined fsolve_raises 2 2 (1 / 10) 100 (- (1 / 10)) = Inr (Some near_parabolic)
   \<and> kc_epsilon near_parabolic < 1
   \<and> kc_theta near_parabolic = theta_full
   \<and> 0 < kc_denom near_parabolic ! 499
   \<and> kc_denom near_parabolic ! 499 \<le> 1 / 100000
   \<and> kc_r near_parabolic ! 499 = NonFinite"
proof -
  have i: "499 < length (kept_theta (sqrt (1 - 2 / 10 ^ 7)))"
    unfolding near_parabolic_theta by (simp add: length_theta_full)
  have e: "kc_epsilon near_parabolic < 1"
    unfolding near_parabolic_def build_orbit_scalars by (rule near_parabolic_epsilon(2))
  have t: "kc_theta near_parabolic = theta_full"
    unfolding near_parabolic_def build_orbit_arrays by (rule near_parabolic_theta)
  have d: "kc_denom near_parabolic ! 499 = 1 + sqrt (1 - 2 / 10 ^ 7) * cos (theta_full ! 499)"
    unfolding near_parabolic_def build_orbit_nth(2)[OF i] near_parabolic_theta ..
  show ?thesis
    unfolding d using near_parabolic_run e t near_parabolic_denom_499 near_parabolic_r_499
    by (intro conjI)
qed

text \<open>
  C8, amended: when \<open>epsilon < 1\<close>, \<open>kepler_combined\<close> keeps every generated angle (no
  filter is applied), and for every kept angle the denominator \<open>1 + epsilon * cos theta\<close>
  is at least \<open>1 - epsilon > 0\<close>. The stored radius is \<open>p / denom\<close> where \<open>denom > 1e-5\<close>, for
  every sample when \<open>epsilon < 1 - 1e-5\<close>, and \<^verbatim>\<open>nan\<close> where \<open>denom \<le> 1e-5\<close>.
\<close>

theorem closed_orbit_keeps_all_angles:
  assumes "kepler_combined fs m1 m2 Lz alpha E = Inr (Some orb)"
    and "kc_epsilon orb < 1"
    and "i < length (kc_theta orb)"
  shows "kc_theta orb = theta_full
     \<and> 0 < 1 - kc_epsilon orb
     \<and> kc_denom orb ! i = 1 + kc_epsilon orb * cos (kc_theta orb ! i)
     \<and> 1 - kc_epsilon orb \<le> kc_denom orb ! i
     \<and> kc_r orb ! i = radius (kc_p orb) (kc_denom orb ! i)
     \<and> (1 / 100000 < kc_denom orb ! i \<longrightarrow> kc_r orb ! i = Fin (kc_p orb / kc_denom orb ! i))
     \<and> (kc_denom orb ! i \<le> 1 / 100000 \<longrightarrow> kc_r orb ! i = NonFinite)
     \<and> (kc_epsilon orb < 1 - 1 / 100000 \<longrightarrow> kc_r orb ! i = Fin (kc_p orb / kc_denom orb ! i))"
proof -
  from kepler_combined_SomeD[OF assms(1)] obtain mu arg where
    arg: "0 \<le> arg" and
    orb: "orb = build_orbit fs mu arg (sqrt arg) (Lz\<^sup>2 / (mu * alpha)) Lz alpha E"
    by blast
  let ?e = "sqrt arg"
  have e: "?e < 1" and e0: "0 \<le> ?e"
    using assms(2) arg by (simp_all add: orb build_orbit_scalars)
  have th: "kept_theta ?e = theta_full"
    using e by (simp add: kept_theta_filter)
  have i: "i < length (kept_theta ?e)"
    using assms(3) by (simp add: orb build_orbit_arrays)
  define d where "d = 1 + ?e * cos (kept_theta ?e ! i)"
  have lower: "1 - ?e \<le> d"
    unfolding d_def using e0 by (rule closed_denom_lower)
  have pos: "0 < d"
    using lower e by linarith
  have r1: "1 / 100000 < d \<Longrightarrow> radius (Lz\<^sup>2 / (mu * alpha)) d = Fin (Lz\<^sup>2 / (mu * alpha) / d)"
    by (rule radius_Fin) simp
  have r2: "d \<le> 1 / 100000 \<Longrightarrow> radius (Lz\<^sup>2 / (mu * alpha)) d = NonFinite"
    using pos by (intro radius_NonFinite) simp
  have r3: "?e < 1 - 1 / 100000 \<Longrightarrow> 1 / 100000 < d"
    using lower by linarith
  show ?thesis
    using e lower r1 r2 r3
    by (simp add: orb build_orbit_scalars build_orbit_nth[OF i] build_orbit_arrays(1) th d_def)
qed

theorem closed_orbit_keeps_all_angles_witness:
  "kc_theta (build_orbit fsolve_raises 1 (1 / 4) (1 / 2) 1 1 1 (- (3 / 8))) = theta_full
   \<and> kc_r (build_orbit fsolve_raises 1 (1 / 4) (1 / 2) 1 1 1 (- (3 / 8))) ! 0 = Fin (2 / 3)"
proof -
  let ?orb = "build_orbit fsolve_raises 1 (1 / 4) (1 / 2) 1 1 1 (- (3 / 8))"
  have k: "kept_theta (1 / 2) = 0 # tl (kept_theta (1 / 2))"
    by (rule kept_theta_Cons) simp
  have t0: "kept_theta (1 / 2) ! 0 = 0"
    by (subst k) simp
  have l: "0 < length (kept_theta (1 / 2))"
    by (subst k) simp
  have i: "0 < length (kc_theta ?orb)"
    using l by (simp add: build_orbit_arrays)
  have e: "kc_epsilon ?orb < 1"
    by (simp add: build_orbit_scalars)
  show ?thesis
    using closed_orbit_keeps_all_angles[OF ellipse_run e i]
    by (simp add: build_orbit_scalars build_orbit_nth[OF l] t0)
qed

section \<open>The energies of a sample (C2)\<close>

lemma energy_algebra:
  fixes mu alpha Lz E e t :: real
  assumes mu: "mu > 0" and al: "alpha > 0" and lz: "Lz \<noteq> 0"
    and e2: "e\<^sup>2 = 1 + 2 * E * Lz\<^sup>2 / (mu * alpha\<^sup>2)"
    and d: "1 + e * cos t \<noteq> 0"
    and p: "p = Lz\<^sup>2 / (mu * alpha)"
    and rho: "rho = p / (1 + e * cos t)"
    and td: "td = Lz / (mu * rho\<^sup>2)"
    and rd: "rd = p * e * sin t / (1 + e * cos t)\<^sup>2 * td"
  shows "0.5 * mu * (rd\<^sup>2 + rho\<^sup>2 * td\<^sup>2) + (- alpha / rho) = E"
proof -
  define d where "d = 1 + e * cos t"
  have dn: "d \<noteq> 0" using assms(5) by (simp add: d_def)
  have p0: "p \<noteq> 0" using mu al lz by (simp add: p)
  have rho': "rho = p / d" by (simp add: rho d_def)
  have td': "td = Lz * d\<^sup>2 / (mu * p\<^sup>2)"
    using p0 dn mu by (simp add: td rho' power_divide)
  have rd': "rd = e * sin t * Lz / (mu * p)"
    using p0 dn mu by (simp add: rd td' d_def[symmetric] power2_eq_square)
  have rt: "rho\<^sup>2 * td\<^sup>2 = Lz\<^sup>2 * d\<^sup>2 / (mu\<^sup>2 * p\<^sup>2)"
    using p0 dn mu by (simp add: td' rho' power_divide power_mult_distrib power2_eq_square)
  have sc: "(sin t)\<^sup>2 = 1 - (cos t)\<^sup>2"
    by (simp add: sin_squared_eq)
  have key: "e\<^sup>2 * (sin t)\<^sup>2 + d\<^sup>2 = e\<^sup>2 + 1 + 2 * e * cos t"
    unfolding sc d_def by (simp add: power2_eq_square algebra_simps)
  have rd2: "rd\<^sup>2 = Lz\<^sup>2 / (mu\<^sup>2 * p\<^sup>2) * (e\<^sup>2 * (sin t)\<^sup>2)"
    unfolding rd' by (simp add: power_divide power_mult_distrib)
  have rt2: "rho\<^sup>2 * td\<^sup>2 = Lz\<^sup>2 / (mu\<^sup>2 * p\<^sup>2) * d\<^sup>2"
    unfolding rt by simp
  have "rd\<^sup>2 + rho\<^sup>2 * td\<^sup>2 = Lz\<^sup>2 / (mu\<^sup>2 * p\<^sup>2) * (e\<^sup>2 * (sin t)\<^sup>2 + d\<^sup>2)"
    unfolding rd2 rt2 by (simp only: distrib_left)
  then have sum: "rd\<^sup>2 + rho\<^sup>2 * td\<^sup>2 = Lz\<^sup>2 / (mu\<^sup>2 * p\<^sup>2) * (e\<^sup>2 + 1 + 2 * e * cos t)"
    by (simp only: key)
  have T: "0.5 * mu * (rd\<^sup>2 + rho\<^sup>2 * td\<^sup>2) = Lz\<^sup>2 / (2 * mu * p\<^sup>2) * (e\<^sup>2 + 1 + 2 * e * cos t)"
    unfolding sum using mu by (simp add: power2_eq_square)
  have lp: "Lz\<^sup>2 / (mu * p) = alpha"
    using mu al lz by (simp add: p)
  have T2: "Lz\<^sup>2 / (2 * mu * p\<^sup>2) = alpha / (2 * p)"
  proof -
    have "Lz\<^sup>2 / (2 * mu * p\<^sup>2) = (Lz\<^sup>2 / (mu * p)) / (2 * p)"
      by (simp add: power2_eq_square)
    then show ?thesis by (simp add: lp)
  qed
  have U: "- alpha / rho = - (alpha / (2 * p)) * (2 + 2 * e * cos t)"
    using p0 dn by (simp add: rho' d_def field_simps)
  have "0.5 * mu * (rd\<^sup>2 + rho\<^sup>2 * td\<^sup>2) + (- alpha / rho) = alpha / (2 * p) * (e\<^sup>2 - 1)"
    unfolding T T2 U by (simp add: ring_distribs)
  also have "\<dots> = alpha / (2 * p) * (2 * E * Lz\<^sup>2 / (mu * alpha\<^sup>2))"
    by (simp add: e2)
  also have "\<dots> = E"
    using mu al lz by (simp add: p power2_eq_square)
  finally show ?thesis .
qed

lemma radius_FinD:
  assumes "radius p d = Fin rho"
  shows "1 / 100000 < \<bar>d\<bar> \<and> d \<noteq> 0 \<and> rho = p / d"
  using assms by (auto simp: radius_def split: if_splits)

text \<open>
  C2, as the claim states it, fails: a retained sample can have energies that are not
  finite, and the check \<open>|T + U - E| < 1e-6\<close> is false on it. For
  \<^verbatim>\<open>kepler_combined(2, 2, 0.1, 100, -0.1)\<close> the sample of index 499 is retained with a
  \<^verbatim>\<open>nan\<close> radius, so \<open>T\<close>, \<open>U\<close> and \<open>E_total\<close> are \<^verbatim>\<open>nan\<close> there.
\<close>

theorem energy_check_fails_on_nan_sample:
  "kepler_combined fsolve_raises 2 2 (1 / 10) 100 (- (1 / 10)) = Inr (Some near_parabolic)
   \<and> 499 < length (kc_theta near_parabolic)
   \<and> kc_T near_parabolic ! 499 = NonFinite
   \<and> kc_U near_parabolic ! 499 = NonFinite
   \<and> kc_E_total near_parabolic ! 499 = NonFinite
   \<and> \<not> energy_consistent (kc_T near_parabolic ! 499) (kc_U near_parabolic ! 499) (- (1 / 10))"
proof -
  have i: "499 < length (kept_theta (sqrt (1 - 2 / 10 ^ 7)))"
    unfolding near_parabolic_theta by (simp add: length_theta_full)
  note nth = build_orbit_nth[OF i, of fsolve_raises 1 "1 - 2 / 10 ^ 7" "1 / 10 ^ 4" "1 / 10" 100
      "- (1 / 10)", folded near_parabolic_def]
  have l: "499 < length (kc_theta near_parabolic)"
    using i unfolding near_parabolic_def build_orbit_arrays .
  have U: "kc_U near_parabolic ! 499 = NonFinite"
    unfolding nth(8) near_parabolic_r_499 by simp
  have td: "kc_theta_dot near_parabolic ! 499 = NonFinite"
    unfolding nth(5) near_parabolic_r_499 by simp
  have T: "kc_T near_parabolic ! 499 = NonFinite"
    unfolding nth(7) near_parabolic_r_499 td by simp
  have Et: "kc_E_total near_parabolic ! 499 = NonFinite"
    unfolding nth(9) T U by simp
  have "\<not> energy_consistent (kc_T near_parabolic ! 499) (kc_U near_parabolic ! 499) (- (1 / 10))"
    unfolding T U energy_consistent_def by simp
  with near_parabolic_run l T U Et show ?thesis
    by (intro conjI)
qed

text \<open>
  C2, amended: for positive masses and coupling, at every retained sample whose radius
  \<open>r\<close> is finite and not zero, \<open>T = 0.5 * mu * (r_dot\<^sup>2 + r\<^sup>2 * theta_dot\<^sup>2)\<close> and \<open>U = - alpha / r\<close>
  are finite and \<open>T + U\<close> is the input energy \<open>E\<close>, exactly in real arithmetic, so the check
  \<open>|T + U - E| < 1e-6\<close> holds there.
\<close>

theorem energy_round_trip:
  assumes "0 < m1" "0 < m2" "0 < alpha"
    and "kepler_combined fs m1 m2 Lz alpha E = Inr (Some orb)"
    and "i < length (kc_theta orb)"
    and "kc_r orb ! i = Fin rho" and "rho \<noteq> 0"
  shows "\<exists>rd td. kc_r_dot orb ! i = Fin rd \<and> kc_theta_dot orb ! i = Fin td
     \<and> kc_T orb ! i = Fin (0.5 * kc_mu orb * (rd\<^sup>2 + rho\<^sup>2 * td\<^sup>2))
     \<and> kc_U orb ! i = Fin (- alpha / rho)
     \<and> 0.5 * kc_mu orb * (rd\<^sup>2 + rho\<^sup>2 * td\<^sup>2) + (- alpha / rho) = E
     \<and> kc_E_total orb ! i = Fin E
     \<and> energy_consistent (kc_T orb ! i) (kc_U orb ! i) E"
proof -
  from kepler_combined_SomeD[OF assms(4)] obtain mu arg where
    mu: "mu = m1 * m2 / (m1 + m2)" and
    arg: "arg = 1 + 2 * E * Lz\<^sup>2 / (mu * alpha\<^sup>2)" "0 \<le> arg" and
    orb: "orb = build_orbit fs mu arg (sqrt arg) (Lz\<^sup>2 / (mu * alpha)) Lz alpha E"
    by blast
  let ?e = "sqrt arg" and ?p = "Lz\<^sup>2 / (mu * alpha)"
  have mu0: "0 < mu"
    using assms(1,2) by (simp add: mu)
  have i: "i < length (kept_theta ?e)"
    using assms(5) by (simp add: orb build_orbit_arrays)
  define t where "t = kept_theta ?e ! i"
  note nth = build_orbit_nth[OF i, of fs mu arg ?p Lz alpha E, folded t_def orb]
  have "radius ?p (1 + ?e * cos t) = Fin rho"
    using assms(6) by (simp add: nth)
  then have d: "1 + ?e * cos t \<noteq> 0" and rho: "rho = ?p / (1 + ?e * cos t)"
    using radius_FinD by blast+
  have lz: "Lz \<noteq> 0"
    using assms(7) rho by auto
  have e2: "?e\<^sup>2 = 1 + 2 * E * Lz\<^sup>2 / (mu * alpha\<^sup>2)"
    using arg by simp
  define td where "td = Lz / (mu * rho\<^sup>2)"
  define rd where "rd = ?p * ?e * sin t / (1 + ?e * cos t)\<^sup>2 * td"
  have en: "0.5 * mu * (rd\<^sup>2 + rho\<^sup>2 * td\<^sup>2) + (- alpha / rho) = E"
    by (rule energy_algebra[OF mu0 assms(3) lz e2 d refl rho td_def rd_def])
  have r: "kc_r orb ! i = Fin rho"
    by (rule assms(6))
  have ntd: "kc_theta_dot orb ! i = Fin td"
    unfolding nth(5) r td_def using mu0 assms(7) by simp
  have ndr: "kc_dr_dtheta orb ! i = Fin (?p * ?e * sin t / (1 + ?e * cos t)\<^sup>2)"
    unfolding nth(4) using d by simp
  have nrd: "kc_r_dot orb ! i = Fin rd"
    unfolding nth(6) ndr ntd rd_def by simp
  have nT: "kc_T orb ! i = Fin (0.5 * mu * (rd\<^sup>2 + rho\<^sup>2 * td\<^sup>2))"
    unfolding nth(7) nrd r ntd by simp
  have nU: "kc_U orb ! i = Fin (- alpha / rho)"
    unfolding nth(8) r using assms(7) by simp
  have nE: "kc_E_total orb ! i = Fin E"
    unfolding nth(9) nT nU using en by simp
  have kmu: "kc_mu orb = mu"
    by (simp add: orb build_orbit_scalars)
  have ec: "energy_consistent (kc_T orb ! i) (kc_U orb ! i) E"
    unfolding nT nU energy_consistent_def using en by simp
  show ?thesis
    using nrd ntd nT nU nE ec en unfolding kmu by blast
qed

theorem energy_round_trip_witness:
  "kc_r (build_orbit fsolve_raises 1 (1 / 4) (1 / 2) 1 1 1 (- (3 / 8))) ! 0 = Fin (2 / 3)
   \<and> kc_U (build_orbit fsolve_raises 1 (1 / 4) (1 / 2) 1 1 1 (- (3 / 8))) ! 0 = Fin (- (3 / 2))
   \<and> kc_E_total (build_orbit fsolve_raises 1 (1 / 4) (1 / 2) 1 1 1 (- (3 / 8))) ! 0 = Fin (- (3 / 8))"
proof -
  let ?orb = "build_orbit fsolve_raises 1 (1 / 4) (1 / 2) 1 1 1 (- (3 / 8))"
  have k: "kept_theta (1 / 2) = 0 # tl (kept_theta (1 / 2))"
    by (rule kept_theta_Cons) simp
  have t0: "kept_theta (1 / 2) ! 0 = 0"
    by (subst k) simp
  have l: "0 < length (kept_theta (1 / 2))"
    by (subst k) simp
  have i: "0 < length (kc_theta ?orb)"
    using l by (simp add: build_orbit_arrays)
  have r: "kc_r ?orb ! 0 = Fin (2 / 3)"
    by (simp add: build_orbit_nth[OF l] t0 radius_def)
  have pos: "(0::real) < 2" "(0::real) < 1" "(2 / 3 :: real) \<noteq> 0"
    by simp_all
  from energy_round_trip[OF pos(1) pos(1) pos(2) ellipse_run i r pos(3)] r
  show ?thesis
    by auto
qed

section \<open>Which samples are dropped (C4)\<close>

lemma length_mask_map: "length (mask (map f xs) (map P xs)) = length (filter P xs)"
  by (simp add: mask_map_map_filter)

lemma sample_orbit_drawn:
  "mask (ao_theta (sample_orbit mu arg p e)) (ao_valid (sample_orbit mu arg p e))
     = filter (\<lambda>t. 0 < 1 + e * cos t) theta_full"
  "length (ao_x (sample_orbit mu arg p e)) = length (filter (\<lambda>t. 0 < 1 + e * cos t) theta_full)"
  "length (ao_y (sample_orbit mu arg p e)) = length (filter (\<lambda>t. 0 < 1 + e * cos t) theta_full)"
proof -
  show "mask (ao_theta (sample_orbit mu arg p e)) (ao_valid (sample_orbit mu arg p e))
     = filter (\<lambda>t. 0 < 1 + e * cos t) theta_full"
    by (simp add: sample_orbit_arrays mask_map_filter)
  show "length (ao_x (sample_orbit mu arg p e)) = length (filter (\<lambda>t. 0 < 1 + e * cos t) theta_full)"
    by (simp add: sample_orbit_def Let_def theta_full_def[symmetric] o_def length_mask_map mask_map_filter)
  show "length (ao_y (sample_orbit mu arg p e)) = length (filter (\<lambda>t. 0 < 1 + e * cos t) theta_full)"
    by (simp add: sample_orbit_def Let_def theta_full_def[symmetric] o_def length_mask_map mask_map_filter)
qed

lemma orbit_setup_SomeD:
  assumes "orbit_setup m1 m2 Lz alpha E = Inr (Some a)"
  shows "\<exists>mu arg. m1 + m2 \<noteq> 0 \<and> mu = m1 * m2 / (m1 + m2) \<and> mu * alpha\<^sup>2 \<noteq> 0
           \<and> arg = 1 + 2 * E * Lz\<^sup>2 / (mu * alpha\<^sup>2) \<and> 0 \<le> arg
           \<and> a = sample_orbit mu arg (Lz\<^sup>2 / (mu * alpha)) (sqrt arg)"
  using assms
  by (auto simp: orbit_setup_def py_div_def Let_def split: if_splits)

lemma sqrt_16: "sqrt 16 = (4::real)"
  by (rule real_sqrt_unique) simp_all

lemma hyperbola_run:
  "kepler_combined fsolve_raises 2 2 1 1 (15 / 2) = Inr (Some hyperbola)"
  by (simp add: kepler_combined_pos Let_def hyperbola_def sqrt_16)

lemma two_thirds_pi_sampled: "2 * pi / 3 \<in> set theta_full"
proof -
  have "theta_full ! 333 \<in> set theta_full"
    by (rule nth_mem) (simp add: length_theta_full)
  then show ?thesis
    by (simp add: nth_theta_full)
qed

text \<open>
  C4, as the claim states it, fails in its first part: \<open>kepler_combined\<close> does not drop the
  samples whose denominator is negative. For \<^verbatim>\<open>kepler_combined(2, 2, 1, 1, 7.5)\<close>, a
  hyperbola of eccentricity 4, the sampled angle \<open>2\<pi>/3\<close> has the denominator \<open>-1\<close> and is
  kept, with the radius \<open>-1\<close>.
\<close>

theorem negative_denominator_kept:
  "kepler_combined fsolve_raises 2 2 1 1 (15 / 2) = Inr (Some hyperbola)
   \<and> kc_epsilon hyperbola = 4
   \<and> 2 * pi / 3 \<in> set (kc_theta hyperbola)
   \<and> 1 + kc_epsilon hyperbola * cos (2 * pi / 3) = - 1
   \<and> - 1 \<in> set (kc_denom hyperbola)
   \<and> Fin (- 1) \<in> set (kc_r hyperbola)"
proof -
  have e: "kc_epsilon hyperbola = 4"
    by (simp add: hyperbola_def build_orbit_scalars)
  have d: "1 + 4 * cos (2 * pi / 3) = (- 1 :: real)"
    by (simp add: cos_120)
  have k: "2 * pi / 3 \<in> set (kept_theta 4)"
    using two_thirds_pi_sampled d by (simp add: kept_theta_filter)
  have t: "2 * pi / 3 \<in> set (kc_theta hyperbola)"
    using k by (simp add: hyperbola_def build_orbit_arrays)
  have "(\<lambda>t. 1 + 4 * cos t) (2 * pi / 3) \<in> set (kc_denom hyperbola)"
    unfolding hyperbola_def build_orbit_arrays set_map using k by (rule imageI)
  then have dn: "- 1 \<in> set (kc_denom hyperbola)"
    by (simp only: d)
  have "(\<lambda>t. radius 1 (1 + 4 * cos t)) (2 * pi / 3) \<in> set (kc_r hyperbola)"
    unfolding hyperbola_def build_orbit_arrays set_map using k by (rule imageI)
  then have r: "Fin (- 1) \<in> set (kc_r hyperbola)"
    by (simp add: d radius_def)
  show ?thesis
    using hyperbola_run e t d dn r by simp
qed

text \<open>
  C4, amended: in \<open>kepler_combined\<close>, when \<open>epsilon \<ge> 1\<close>, exactly the angles with
  \<open>|1 + epsilon * cos theta| \<le> 1e-3\<close> are dropped from the angle set, before any radius is
  computed, so the radii of the kept set hold no \<^verbatim>\<open>nan\<close>; the angles whose denominator is
  below \<open>-1e-3\<close> stay. In the animated script the samples drawn are those whose denominator
  is positive.
\<close>

theorem open_orbit_filter:
  "(kepler_combined fs m1 m2 Lz alpha E = Inr (Some orb) \<and> 1 \<le> kc_epsilon orb \<longrightarrow>
      kc_theta orb = filter (\<lambda>t. 1 / 1000 < \<bar>1 + kc_epsilon orb * cos t\<bar>) theta_full
      \<and> (\<forall>t \<in> set theta_full. \<bar>1 + kc_epsilon orb * cos t\<bar> \<le> 1 / 1000 \<longrightarrow> t \<notin> set (kc_theta orb))
      \<and> kc_r orb = map (\<lambda>t. radius (kc_p orb) (1 + kc_epsilon orb * cos t)) (kc_theta orb)
      \<and> NonFinite \<notin> set (kc_r orb))
   \<and> (orbit_setup m1 m2 Lz alpha E = Inr (Some a) \<longrightarrow>
      mask (ao_theta a) (ao_valid a) = filter (\<lambda>t. 0 < 1 + ao_epsilon a * cos t) theta_full
      \<and> length (ao_x a) = length (mask (ao_theta a) (ao_valid a))
      \<and> length (ao_y a) = length (mask (ao_theta a) (ao_valid a)))"
proof (intro conjI impI)
  assume "orbit_setup m1 m2 Lz alpha E = Inr (Some a)"
  from orbit_setup_SomeD[OF this] obtain mu arg where
    a: "a = sample_orbit mu arg (Lz\<^sup>2 / (mu * alpha)) (sqrt arg)"
    by blast
  show "mask (ao_theta a) (ao_valid a) = filter (\<lambda>t. 0 < 1 + ao_epsilon a * cos t) theta_full"
    by (simp add: a sample_orbit_arrays mask_map_filter)
  show "length (ao_x a) = length (mask (ao_theta a) (ao_valid a))"
    by (simp only: a sample_orbit_drawn)
  show "length (ao_y a) = length (mask (ao_theta a) (ao_valid a))"
    by (simp only: a sample_orbit_drawn)
next
  assume h: "kepler_combined fs m1 m2 Lz alpha E = Inr (Some orb) \<and> 1 \<le> kc_epsilon orb"
  from kepler_combined_SomeD[of fs m1 m2 Lz alpha E orb] h obtain mu arg where
    orb: "orb = build_orbit fs mu arg (sqrt arg) (Lz\<^sup>2 / (mu * alpha)) Lz alpha E"
    by blast
  have e: "1 \<le> sqrt arg"
    using h by (simp add: orb build_orbit_scalars)
  show f: "kc_theta orb = filter (\<lambda>t. 1 / 1000 < \<bar>1 + kc_epsilon orb * cos t\<bar>) theta_full"
    using e by (simp add: orb build_orbit_scalars build_orbit_arrays kept_theta_filter)
  show "\<forall>t \<in> set theta_full. \<bar>1 + kc_epsilon orb * cos t\<bar> \<le> 1 / 1000 \<longrightarrow> t \<notin> set (kc_theta orb)"
    unfolding f by simp
  show "kc_r orb = map (\<lambda>t. radius (kc_p orb) (1 + kc_epsilon orb * cos t)) (kc_theta orb)"
    by (simp add: orb build_orbit_scalars build_orbit_arrays)
  show "NonFinite \<notin> set (kc_r orb)"
  proof
    assume "NonFinite \<in> set (kc_r orb)"
    then obtain t where t: "t \<in> set (kept_theta (sqrt arg))"
      and n: "radius (Lz\<^sup>2 / (mu * alpha)) (1 + sqrt arg * cos t) = NonFinite"
      by (auto simp: orb build_orbit_arrays)
    have "1 / 1000 < \<bar>1 + sqrt arg * cos t\<bar>"
      using e t by (rule kept_theta_open)
    then have "1 / 100000 < \<bar>1 + sqrt arg * cos t\<bar>"
      by simp
    then show False
      using n by (simp add: radius_Fin)
  qed
qed

theorem open_orbit_filter_witness:
  "2 * pi / 3 \<notin> set (kc_theta (build_orbit fsolve_raises 1 4 2 1 1 1 (3 / 2)))
   \<and> NonFinite \<notin> set (kc_r (build_orbit fsolve_raises 1 4 2 1 1 1 (3 / 2)))
   \<and> length (ao_x (sample_orbit 1 4 1 2)) = length (filter (\<lambda>t. 0 < 1 + 2 * cos t) theta_full)"
proof -
  let ?orb = "build_orbit fsolve_raises 1 4 2 1 1 1 (3 / 2)"
  let ?a = "sample_orbit 1 4 1 2"
  have run: "kepler_combined fsolve_raises 2 2 1 1 (3 / 2) = Inr (Some ?orb)"
    by (simp add: kepler_combined_pos Let_def sqrt_4)
  have e: "1 \<le> kc_epsilon ?orb"
    by (simp add: build_orbit_scalars)
  have os: "orbit_setup 2 2 1 1 (3 / 2) = Inr (Some ?a)"
    by (simp add: orbit_setup_def py_div_def Let_def sqrt_4)
  have d: "\<bar>1 + kc_epsilon ?orb * cos (2 * pi / 3)\<bar> \<le> 1 / 1000"
    by (simp add: build_orbit_scalars cos_120)
  note th = open_orbit_filter[of fsolve_raises 2 2 1 1 "3 / 2" ?orb ?a]
  from th run e have
    drop: "\<forall>t \<in> set theta_full. \<bar>1 + kc_epsilon ?orb * cos t\<bar> \<le> 1 / 1000 \<longrightarrow> t \<notin> set (kc_theta ?orb)"
    and fin: "NonFinite \<notin> set (kc_r ?orb)"
    by blast+
  from th os have
    "mask (ao_theta ?a) (ao_valid ?a) = filter (\<lambda>t. 0 < 1 + ao_epsilon ?a * cos t) theta_full"
    and "length (ao_x ?a) = length (mask (ao_theta ?a) (ao_valid ?a))"
    by blast+
  then have len: "length (ao_x ?a) = length (filter (\<lambda>t. 0 < 1 + 2 * cos t) theta_full)"
    by (simp add: sample_orbit_arrays)
  from drop two_thirds_pi_sampled d have "2 * pi / 3 \<notin> set (kc_theta ?orb)"
    by blast
  with fin len show ?thesis
    by simp
qed

section \<open>The turning points (C6)\<close>

lemma safe_fsolve_cases:
  "safe_fsolve fs func x0 =
     (case fs func x0 of
        Raised \<Rightarrow> None
      | Returned root_arr ier \<Rightarrow>
          if ier = 1 then (case root_arr of [] \<Rightarrow> None | v # _ \<Rightarrow> Some v) else None)"
  by (simp add: safe_fsolve_def safe_fsolve_try_def split: fsolve_outcome.splits list.splits)

lemma safe_fsolve_failed:
  assumes "fs func x0 = Raised \<or> (\<exists>root_arr ier. fs func x0 = Returned root_arr ier \<and> ier \<noteq> 1)"
  shows "safe_fsolve fs func x0 = None"
  using assms by (auto simp: safe_fsolve_cases)

lemma safe_fsolve_converged:
  assumes "fs func x0 = Returned (v # vs) 1"
  shows "safe_fsolve fs func x0 = Some v"
  using assms by (simp add: safe_fsolve_cases)

lemma veff_eq_Fin:
  "rval \<noteq> 0 \<Longrightarrow> mu \<noteq> 0 \<Longrightarrow>
     veff_eq mu Lz alpha E (Fin rval) = Fin (Lz\<^sup>2 / (2 * mu * rval\<^sup>2) - alpha / rval - E)"
  by (simp add: veff_eq_def)

text \<open>
  C6: \<open>kepler_combined\<close> runs two root searches on
  \<open>f r = Lz\<^sup>2 / (2 * mu * r\<^sup>2) - alpha / r - E\<close>, from the starting points 0.5 and 5.0. Whatever
  the root finder does, a call that gets as far as the searches completes: a search that
  raises or does not converge (\<open>ier \<noteq> 1\<close>) leaves \<^verbatim>\<open>None\<close> in its own bound, and the other
  bound is what the other search gives.
\<close>

theorem root_searches_are_independent:
  assumes "kepler_combined fs0 m1 m2 Lz alpha E = Inr (Some orb0)"
  shows "\<exists>orb. kepler_combined fs m1 m2 Lz alpha E = Inr (Some orb)
     \<and> kc_mu orb = m1 * m2 / (m1 + m2) \<and> kc_mu orb \<noteq> 0
     \<and> (\<forall>rval. rval \<noteq> 0 \<longrightarrow>
           veff_eq (kc_mu orb) Lz alpha E (Fin rval)
             = Fin (Lz\<^sup>2 / (2 * kc_mu orb * rval\<^sup>2) - alpha / rval - E))
     \<and> kc_rmin orb = safe_fsolve fs (veff_eq (kc_mu orb) Lz alpha E) 0.5
     \<and> kc_rmax orb = safe_fsolve fs (veff_eq (kc_mu orb) Lz alpha E) 5
     \<and> (fs (veff_eq (kc_mu orb) Lz alpha E) 0.5 = Raised
          \<or> (\<exists>root_arr ier. fs (veff_eq (kc_mu orb) Lz alpha E) 0.5 = Returned root_arr ier \<and> ier \<noteq> 1)
        \<longrightarrow> kc_rmin orb = None)
     \<and> (fs (veff_eq (kc_mu orb) Lz alpha E) 5 = Raised
          \<or> (\<exists>root_arr ier. fs (veff_eq (kc_mu orb) Lz alpha E) 5 = Returned root_arr ier \<and> ier \<noteq> 1)
        \<longrightarrow> kc_rmax orb = None)
     \<and> (\<forall>v vs. fs (veff_eq (kc_mu orb) Lz alpha E) 0.5 = Returned (v # vs) 1 \<longrightarrow> kc_rmin orb = Some v)
     \<and> (\<forall>v vs. fs (veff_eq (kc_mu orb) Lz alpha E) 5 = Returned (v # vs) 1 \<longrightarrow> kc_rmax orb = Some v)"
proof -
  from kepler_combined_SomeD[OF assms] obtain mu arg where
    s: "m1 + m2 \<noteq> 0" and mu: "mu = m1 * m2 / (m1 + m2)" and m0: "mu * alpha\<^sup>2 \<noteq> 0"
    and arg: "arg = 1 + 2 * E * Lz\<^sup>2 / (mu * alpha\<^sup>2)" "0 \<le> arg"
    by blast
  let ?orb = "build_orbit fs mu arg (sqrt arg) (Lz\<^sup>2 / (mu * alpha)) Lz alpha E"
  have mu0: "mu \<noteq> 0"
    using m0 by auto
  have a0: "mu * alpha \<noteq> 0"
    using m0 by auto
  have run: "kepler_combined fs m1 m2 Lz alpha E = Inr (Some ?orb)"
    using s m0 a0 arg mu by (simp add: kepler_combined_def py_div_def Let_def)
  have "kc_mu ?orb = m1 * m2 / (m1 + m2)" "kc_mu ?orb \<noteq> 0"
    "kc_rmin ?orb = safe_fsolve fs (veff_eq (kc_mu ?orb) Lz alpha E) 0.5"
    "kc_rmax ?orb = safe_fsolve fs (veff_eq (kc_mu ?orb) Lz alpha E) 5"
    using mu mu0 by (simp_all add: build_orbit_scalars)
  with run show ?thesis
    by (intro exI[of _ ?orb]) (simp add: safe_fsolve_failed safe_fsolve_converged veff_eq_Fin)
qed

theorem root_searches_are_independent_witness:
  "\<exists>orb. kepler_combined fsolve_far_only 2 2 1 1 0 = Inr (Some orb)
     \<and> kc_rmin orb = None \<and> kc_rmax orb = Some (Fin 7)"
proof -
  from root_searches_are_independent[OF parabola_run, of fsolve_far_only] obtain orb where
    run: "kepler_combined fsolve_far_only 2 2 1 1 0 = Inr (Some orb)"
    and lo: "fsolve_far_only (veff_eq (kc_mu orb) 1 1 0) 0.5 = Raised
          \<or> (\<exists>root_arr ier. fsolve_far_only (veff_eq (kc_mu orb) 1 1 0) 0.5 = Returned root_arr ier \<and> ier \<noteq> 1)
        \<longrightarrow> kc_rmin orb = None"
    and hi: "\<forall>v vs. fsolve_far_only (veff_eq (kc_mu orb) 1 1 0) 5 = Returned (v # vs) 1 \<longrightarrow> kc_rmax orb = Some v"
    by blast
  have "fsolve_far_only (veff_eq (kc_mu orb) 1 1 0) 0.5 = Raised"
    by (simp add: fsolve_far_only_def)
  with lo have rmin: "kc_rmin orb = None"
    by blast
  have "fsolve_far_only (veff_eq (kc_mu orb) 1 1 0) 5 = Returned [Fin 7] 1"
    by (simp add: fsolve_far_only_def)
  with hi have rmax: "kc_rmax orb = Some (Fin 7)"
    by blast
  from run rmin rmax show ?thesis
    by blast
qed

section \<open>The parameters of the animated script (C7)\<close>

text \<open>
  C7, as the claim states it, fails: for \<open>m1 = 1\<close>, \<open>m2 = 6\<close>, \<open>Lz = 2\<close>, \<open>alpha = 2\<close> and
  \<open>E = -0.2\<close> the script computes \<open>arg = 1 + 2 * (-0.2) * 4 / ((6/7) * 4) = 8/15\<close>, about
  0.533 and not 0.767, and the eccentricity \<open>sqrt (8/15)\<close> is below 0.731, not about 0.876.
\<close>

theorem script_arg_is_not_0767:
  "animated_orbit = Inr (Some script_orbit)
   \<and> ao_arg script_orbit = 8 / 15
   \<and> \<not> \<bar>ao_arg script_orbit - 767 / 1000\<bar> \<le> 1 / 1000
   \<and> ao_epsilon script_orbit < 731 / 1000
   \<and> \<not> \<bar>ao_epsilon script_orbit - 876 / 1000\<bar> \<le> 1 / 1000"
proof -
  have a: "ao_arg script_orbit = 8 / 15"
    by (simp add: script_orbit_def sample_orbit_arrays)
  have e: "ao_epsilon script_orbit = sqrt (8 / 15)"
    by (simp add: script_orbit_def sample_orbit_arrays)
  have e1: "ao_epsilon script_orbit < 731 / 1000"
    unfolding e using script_epsilon_bounds(2) by linarith
  then have e2: "\<not> \<bar>ao_epsilon script_orbit - 876 / 1000\<bar> \<le> 1 / 1000"
    by linarith
  show ?thesis
    using script_run e1 e2 by (simp add: a)
qed

text \<open>
  C7, amended: for \<open>m1 = 1\<close>, \<open>m2 = 6\<close>, \<open>Lz = 2\<close>, \<open>alpha = 2\<close> and \<open>E = -0.2\<close> the derived
  quantities are \<open>mu = 6/7\<close>, about 0.857; \<open>arg = 8/15\<close>, about 0.533 and positive;
  \<open>epsilon = sqrt (8/15)\<close>, about 0.730, which \<open>kepler_combined\<close> labels Ellipse; and
  \<open>p = 7/3\<close>, about 2.333.
\<close>

theorem script_orbit_values:
  "animated_orbit = Inr (Some script_orbit)
   \<and> ao_mu script_orbit = 6 / 7 \<and> \<bar>ao_mu script_orbit - 857 / 1000\<bar> \<le> 1 / 1000
   \<and> ao_arg script_orbit = 8 / 15 \<and> \<bar>ao_arg script_orbit - 533 / 1000\<bar> \<le> 1 / 1000
   \<and> 0 < ao_arg script_orbit
   \<and> ao_epsilon script_orbit = sqrt (8 / 15) \<and> \<bar>ao_epsilon script_orbit - 730 / 1000\<bar> \<le> 1 / 1000
   \<and> ao_p script_orbit = 7 / 3 \<and> \<bar>ao_p script_orbit - 2333 / 1000\<bar> \<le> 1 / 1000
   \<and> kepler_combined fs 1 6 2 2 (- (2 / 10))
        = Inr (Some (build_orbit fs (6 / 7) (8 / 15) (sqrt (8 / 15)) (7 / 3) 2 2 (- (2 / 10))))
   \<and> kc_orbit_type (build_orbit fs (6 / 7) (8 / 15) (sqrt (8 / 15)) (7 / 3) 2 2 (- (2 / 10))) = ''Ellipse''"
proof -
  have e: "\<bar>sqrt (8 / 15) - 730 / 1000\<bar> \<le> (1 / 1000 :: real)"
    using script_epsilon_bounds by linarith
  have lt: "sqrt (8 / 15) < (1::real)"
    using script_epsilon_bounds(2) by linarith
  have run: "kepler_combined fs 1 6 2 2 (- (2 / 10))
        = Inr (Some (build_orbit fs (6 / 7) (8 / 15) (sqrt (8 / 15)) (7 / 3) 2 2 (- (2 / 10))))"
    by (simp add: kepler_combined_def py_div_def Let_def)
  have ty: "kc_orbit_type (build_orbit fs (6 / 7) (8 / 15) (sqrt (8 / 15)) (7 / 3) 2 2 (- (2 / 10))) = ''Ellipse''"
    unfolding build_orbit_scalars orbit_type_def using lt by simp
  have vals: "ao_mu script_orbit = 6 / 7" "ao_arg script_orbit = 8 / 15"
    "ao_epsilon script_orbit = sqrt (8 / 15)" "ao_p script_orbit = 7 / 3"
    by (simp_all add: script_orbit_def sample_orbit_arrays)
  show ?thesis
    unfolding vals using script_run e run ty by simp
qed

section \<open>The velocity arrow (C5)\<close>

lemma py_nth_in_range:
  "0 \<le> i \<Longrightarrow> i < int (length xs) \<Longrightarrow> py_nth xs i = Inr (xs ! nat i)"
  by (simp add: py_nth_def)

lemma py_nth_minus_one:
  "xs \<noteq> [] \<Longrightarrow> py_nth xs (- 1) = Inr (xs ! (length xs - 1))"
  by (cases xs) (simp_all add: py_nth_def)

lemma tangent_Fin:
  assumes "length zs = n" and "0 \<le> i" and "i < int n"
  shows "tangent (int n) (map Fin zs) i =
     Inr (Fin (zs ! (if i < int n - 1 then nat (i + 1) else nat i)
             - zs ! (if i < int n - 1 then nat i else if 0 < i then nat (i - 1) else n - 1)))"
proof (cases "i < int n - 1")
  case True
  then show ?thesis
    using assms by (simp add: tangent_def then_do_def py_nth_in_range nat_add_distrib)
next
  case False
  show ?thesis
  proof (cases "0 < i")
    case True
    then show ?thesis
      using assms False by (simp add: tangent_def then_do_def py_nth_in_range)
  next
    case z: False
    then have i: "i = 0" using assms(2) by simp
    have ne: "map Fin zs \<noteq> []" using assms by auto
    have n: "n - 1 < length zs" using assms by auto
    show ?thesis
      using assms False n unfolding i
      by (simp add: tangent_def then_do_def py_nth_in_range py_nth_minus_one[OF ne])
  qed
qed

lemma np_norm_Fin:
  "np_sqrt (np_add (np_square (Fin a)) (np_square (Fin b))) = Fin (sqrt (a\<^sup>2 + b\<^sup>2))"
proof -
  have "\<not> a\<^sup>2 + b\<^sup>2 < 0"
    by (simp add: not_less)
  then show ?thesis
    by simp
qed

lemma arrow_zero_tangent: "arrow v (Fin 0) (Fin 0) = (Fin 0, Fin 0)"
  by (simp add: arrow_def Let_def)

lemma arrow_Fin:
  assumes "\<not> (dx = 0 \<and> dy = 0)"
  shows "arrow v (Fin dx) (Fin dy) =
     (np_div (np_mul v (Fin dx)) (Fin (sqrt (dx\<^sup>2 + dy\<^sup>2))),
      np_div (np_mul v (Fin dy)) (Fin (sqrt (dx\<^sup>2 + dy\<^sup>2))))"
proof -
  have "dx\<^sup>2 + dy\<^sup>2 \<noteq> 0"
    using assms by simp
  then have "sqrt (dx\<^sup>2 + dy\<^sup>2) \<noteq> 0"
    by simp
  then have "Fin (sqrt (dx\<^sup>2 + dy\<^sup>2)) \<noteq> Fin 0"
    by simp
  then show ?thesis
    unfolding arrow_def np_norm_Fin Let_def by (simp only: if_False)
qed

lemma v_mag_Fin:
  assumes "r \<noteq> 0" "mu \<noteq> 0" "0 \<le> 2 * (E + alpha / r) / mu"
  shows "v_mag E alpha mu (Fin r) = Fin (sqrt (2 * (E + alpha / r) / mu))"
  using assms by (simp add: v_mag_def)

lemma unit_tangent_scaled:
  fixes s dx dy :: real
  assumes "\<not> (dx = 0 \<and> dy = 0)"
  shows "(s * dx / sqrt (dx\<^sup>2 + dy\<^sup>2))\<^sup>2 + (s * dy / sqrt (dx\<^sup>2 + dy\<^sup>2))\<^sup>2 = s\<^sup>2"
proof -
  have nz: "dx\<^sup>2 + dy\<^sup>2 \<noteq> 0"
    using assms by simp
  have sq: "(sqrt (dx\<^sup>2 + dy\<^sup>2))\<^sup>2 = dx\<^sup>2 + dy\<^sup>2"
    by simp
  have "(s * dx / sqrt (dx\<^sup>2 + dy\<^sup>2))\<^sup>2 + (s * dy / sqrt (dx\<^sup>2 + dy\<^sup>2))\<^sup>2
      = s\<^sup>2 * (dx\<^sup>2 + dy\<^sup>2) / (dx\<^sup>2 + dy\<^sup>2)"
    unfolding power_divide power_mult_distrib sq by (simp add: add_divide_distrib distrib_left)
  also have "\<dots> = s\<^sup>2"
    using nz by simp
  finally show ?thesis .
qed

lemma update_velocity_Fin:
  assumes "length ys = length xs" and "0 \<le> i" and "i < int (length xs)"
  shows "update_velocity E alpha mu (map Fin xs) (map Fin ys) i =
     Inr (arrow (v_mag E alpha mu (Fin (sqrt ((xs ! nat i)\<^sup>2 + (ys ! nat i)\<^sup>2))))
            (Fin (xs ! (if i < int (length xs) - 1 then nat (i + 1) else nat i)
                - xs ! (if i < int (length xs) - 1 then nat i
                        else if 0 < i then nat (i - 1) else length xs - 1)))
            (Fin (ys ! (if i < int (length xs) - 1 then nat (i + 1) else nat i)
                - ys ! (if i < int (length xs) - 1 then nat i
                        else if 0 < i then nat (i - 1) else length xs - 1))))"
proof -
  have x: "py_nth (map Fin xs) i = Inr (Fin (xs ! nat i))"
    using assms by (simp add: py_nth_in_range)
  have y: "py_nth (map Fin ys) i = Inr (Fin (ys ! nat i))"
    using assms by (simp add: py_nth_in_range)
  note tx = tangent_Fin[OF refl assms(2,3)]
  note ty = tangent_Fin[OF assms(1) assms(2,3)]
  show ?thesis
    by (simp only: update_velocity_def length_map x y tx ty then_do_def sum.case Let_def
        np_norm_Fin)
qed

lemma sqrt_9: "sqrt 9 = (3::real)"
  by (rule real_sqrt_unique) simp_all

lemma sqrt_25: "sqrt 25 = (5::real)"
  by (rule real_sqrt_unique) simp_all

text \<open>
  The arrays \<^verbatim>\<open>x\<close> and \<^verbatim>\<open>y\<close> of the script hold finite values only: its eccentricity is
  below 1, so every denominator is above \<open>1e-3\<close> and every sample is drawn.
\<close>

lemma map2_map_left: "map2 f (map g xs) xs = map (\<lambda>x. f (g x) x) xs"
  by (induction xs) simp_all

lemma script_denominators:
  fixes t :: real
  shows "1 / 1000 < 1 + sqrt (8 / 15) * cos t"
proof -
  have "1 - sqrt (8 / 15) \<le> 1 + sqrt (8 / 15) * cos t"
    by (rule closed_denom_lower) simp
  moreover have "1 / 1000 < 1 - sqrt (8 / 15)"
    using script_epsilon_bounds(2) by linarith
  ultimately show ?thesis
    by linarith
qed

lemma script_samples_finite:
  "ao_x script_orbit = map Fin (map (\<lambda>t. 7 / 3 / (1 + sqrt (8 / 15) * cos t) * cos t) theta_full)
   \<and> ao_y script_orbit = map Fin (map (\<lambda>t. 7 / 3 / (1 + sqrt (8 / 15) * cos t) * sin t) theta_full)"
proof -
  let ?e = "sqrt (8 / 15) :: real"
  let ?g = "\<lambda>t. if 1 / 1000 < \<bar>1 + ?e * cos t\<bar> then np_div (Fin (7 / 3)) (Fin (1 + ?e * cos t)) else NonFinite"
  have pos: "0 < 1 + ?e * cos t" for t
    using script_denominators[of t] by linarith
  have g: "?g t = Fin (7 / 3 / (1 + ?e * cos t))" for t
    using script_denominators[of t] pos[of t] by simp
  have keep: "filter (\<lambda>t. 0 < 1 + ?e * cos t) theta_full = theta_full"
    using pos by simp
  have r: "mask (map ?g theta_full) (map (\<lambda>t. 0 < 1 + ?e * cos t) theta_full) = map ?g theta_full"
    unfolding mask_map_map_filter keep ..
  have th: "mask theta_full (map (\<lambda>t. 0 < 1 + ?e * cos t) theta_full) = theta_full"
    unfolding mask_map_filter keep ..
  have x0: "ao_x script_orbit = map2 (\<lambda>ri t. np_mul ri (Fin (cos t)))
        (mask (map ?g theta_full) (map (\<lambda>t. 0 < 1 + ?e * cos t) theta_full))
        (mask theta_full (map (\<lambda>t. 0 < 1 + ?e * cos t) theta_full))"
    by (simp only: script_orbit_def sample_orbit_def Let_def anim.select_convs
        theta_full_def[symmetric] map_map o_def)
  have y0: "ao_y script_orbit = map2 (\<lambda>ri t. np_mul ri (Fin (sin t)))
        (mask (map ?g theta_full) (map (\<lambda>t. 0 < 1 + ?e * cos t) theta_full))
        (mask theta_full (map (\<lambda>t. 0 < 1 + ?e * cos t) theta_full))"
    by (simp only: script_orbit_def sample_orbit_def Let_def anim.select_convs
        theta_full_def[symmetric] map_map o_def)
  have x: "ao_x script_orbit = map2 (\<lambda>ri t. np_mul ri (Fin (cos t))) (map ?g theta_full) theta_full"
    unfolding x0 r th ..
  have y: "ao_y script_orbit = map2 (\<lambda>ri t. np_mul ri (Fin (sin t))) (map ?g theta_full) theta_full"
    unfolding y0 r th ..
  show ?thesis
    unfolding x y map2_map_left g by simp
qed

text \<open>
  C5: on arrays of finite samples and a frame \<open>i\<close> in range, \<^verbatim>\<open>update\<close> raises nothing and
  draws the arrow computed from the radius \<open>r\<close> of the sample and the difference
  \<open>(dx, dy)\<close> of two adjacent samples. The speed is 0 when \<open>r = 0\<close>. The arrow is \<open>(0, 0)\<close>
  when the two samples coincide, with no division by the zero norm. Otherwise it is the
  tangent divided by its norm and multiplied by \<open>v = sqrt (2 * (E + alpha / r) / mu)\<close>, in
  numpy's arithmetic; where \<open>mu \<noteq> 0\<close> and the radicand is not negative, that is a pair of
  finite numbers of length \<open>v\<close>.
\<close>

theorem update_velocity_edge_cases:
  fixes xs ys :: "real list"
  assumes "length ys = length xs" and "0 \<le> i" and "i < int (length xs)"
  defines "r \<equiv> sqrt ((xs ! nat i)\<^sup>2 + (ys ! nat i)\<^sup>2)"
  defines "a \<equiv> (if i < int (length xs) - 1 then nat (i + 1) else nat i)"
  defines "b \<equiv> (if i < int (length xs) - 1 then nat i
                 else if 0 < i then nat (i - 1) else length xs - 1)"
  defines "dx \<equiv> xs ! a - xs ! b" and "dy \<equiv> ys ! a - ys ! b"
  shows "update_velocity E alpha mu (map Fin xs) (map Fin ys) i
           = Inr (arrow (v_mag E alpha mu (Fin r)) (Fin dx) (Fin dy))
     \<and> (r = 0 \<longrightarrow> v_mag E alpha mu (Fin r) = Fin 0)
     \<and> (dx = 0 \<and> dy = 0 \<longrightarrow>
          update_velocity E alpha mu (map Fin xs) (map Fin ys) i = Inr (Fin 0, Fin 0))
     \<and> (\<not> (dx = 0 \<and> dy = 0) \<and> r \<noteq> 0 \<longrightarrow>
          update_velocity E alpha mu (map Fin xs) (map Fin ys) i
            = Inr (np_div (np_mul (np_sqrt (np_div (np_mul (Fin 2) (np_add (Fin E) (np_div (Fin alpha) (Fin r)))) (Fin mu)))
                                  (Fin dx))
                          (Fin (sqrt (dx\<^sup>2 + dy\<^sup>2))),
                   np_div (np_mul (np_sqrt (np_div (np_mul (Fin 2) (np_add (Fin E) (np_div (Fin alpha) (Fin r)))) (Fin mu)))
                                  (Fin dy))
                          (Fin (sqrt (dx\<^sup>2 + dy\<^sup>2)))))
     \<and> (\<not> (dx = 0 \<and> dy = 0) \<and> r \<noteq> 0 \<and> mu \<noteq> 0 \<and> 0 \<le> 2 * (E + alpha / r) / mu \<longrightarrow>
          update_velocity E alpha mu (map Fin xs) (map Fin ys) i
            = Inr (Fin (sqrt (2 * (E + alpha / r) / mu) * dx / sqrt (dx\<^sup>2 + dy\<^sup>2)),
                   Fin (sqrt (2 * (E + alpha / r) / mu) * dy / sqrt (dx\<^sup>2 + dy\<^sup>2)))
          \<and> (sqrt (2 * (E + alpha / r) / mu) * dx / sqrt (dx\<^sup>2 + dy\<^sup>2))\<^sup>2
            + (sqrt (2 * (E + alpha / r) / mu) * dy / sqrt (dx\<^sup>2 + dy\<^sup>2))\<^sup>2
            = 2 * (E + alpha / r) / mu)"
proof -
  have u: "update_velocity E alpha mu (map Fin xs) (map Fin ys) i
           = Inr (arrow (v_mag E alpha mu (Fin r)) (Fin dx) (Fin dy))"
    unfolding r_def dx_def dy_def a_def b_def by (rule update_velocity_Fin[OF assms(1-3)])
  have c1: "r = 0 \<longrightarrow> v_mag E alpha mu (Fin r) = Fin 0"
    by (simp add: v_mag_def)
  have c2: "dx = 0 \<and> dy = 0 \<longrightarrow>
          update_velocity E alpha mu (map Fin xs) (map Fin ys) i = Inr (Fin 0, Fin 0)"
    unfolding u by (auto simp: arrow_zero_tangent)
  have vm: "r \<noteq> 0 \<Longrightarrow> v_mag E alpha mu (Fin r)
      = np_sqrt (np_div (np_mul (Fin 2) (np_add (Fin E) (np_div (Fin alpha) (Fin r)))) (Fin mu))"
    by (simp add: v_mag_def)
  have c3: "\<not> (dx = 0 \<and> dy = 0) \<and> r \<noteq> 0 \<longrightarrow>
          update_velocity E alpha mu (map Fin xs) (map Fin ys) i
            = Inr (np_div (np_mul (np_sqrt (np_div (np_mul (Fin 2) (np_add (Fin E) (np_div (Fin alpha) (Fin r)))) (Fin mu)))
                                  (Fin dx))
                          (Fin (sqrt (dx\<^sup>2 + dy\<^sup>2))),
                   np_div (np_mul (np_sqrt (np_div (np_mul (Fin 2) (np_add (Fin E) (np_div (Fin alpha) (Fin r)))) (Fin mu)))
                                  (Fin dy))
                          (Fin (sqrt (dx\<^sup>2 + dy\<^sup>2))))"
  proof
    assume h: "\<not> (dx = 0 \<and> dy = 0) \<and> r \<noteq> 0"
    then have t: "\<not> (dx = 0 \<and> dy = 0)" and r0: "r \<noteq> 0"
      by blast+
    show "update_velocity E alpha mu (map Fin xs) (map Fin ys) i
            = Inr (np_div (np_mul (np_sqrt (np_div (np_mul (Fin 2) (np_add (Fin E) (np_div (Fin alpha) (Fin r)))) (Fin mu)))
                                  (Fin dx))
                          (Fin (sqrt (dx\<^sup>2 + dy\<^sup>2))),
                   np_div (np_mul (np_sqrt (np_div (np_mul (Fin 2) (np_add (Fin E) (np_div (Fin alpha) (Fin r)))) (Fin mu)))
                                  (Fin dy))
                          (Fin (sqrt (dx\<^sup>2 + dy\<^sup>2))))"
      unfolding u arrow_Fin[OF t] vm[OF r0] ..
  qed
  have c4: "\<not> (dx = 0 \<and> dy = 0) \<and> r \<noteq> 0 \<and> mu \<noteq> 0 \<and> 0 \<le> 2 * (E + alpha / r) / mu \<longrightarrow>
          update_velocity E alpha mu (map Fin xs) (map Fin ys) i
            = Inr (Fin (sqrt (2 * (E + alpha / r) / mu) * dx / sqrt (dx\<^sup>2 + dy\<^sup>2)),
                   Fin (sqrt (2 * (E + alpha / r) / mu) * dy / sqrt (dx\<^sup>2 + dy\<^sup>2)))
          \<and> (sqrt (2 * (E + alpha / r) / mu) * dx / sqrt (dx\<^sup>2 + dy\<^sup>2))\<^sup>2
            + (sqrt (2 * (E + alpha / r) / mu) * dy / sqrt (dx\<^sup>2 + dy\<^sup>2))\<^sup>2
            = 2 * (E + alpha / r) / mu"
  proof
    assume h: "\<not> (dx = 0 \<and> dy = 0) \<and> r \<noteq> 0 \<and> mu \<noteq> 0 \<and> 0 \<le> 2 * (E + alpha / r) / mu"
    then have t: "\<not> (dx = 0 \<and> dy = 0)" and r0: "r \<noteq> 0" and m0: "mu \<noteq> 0"
      and rad: "0 \<le> 2 * (E + alpha / r) / mu"
      by blast+
    have n0: "sqrt (dx\<^sup>2 + dy\<^sup>2) \<noteq> 0"
      using t by simp
    have v: "v_mag E alpha mu (Fin r) = Fin (sqrt (2 * (E + alpha / r) / mu))"
      by (rule v_mag_Fin[OF r0 m0 rad])
    have res: "update_velocity E alpha mu (map Fin xs) (map Fin ys) i
            = Inr (Fin (sqrt (2 * (E + alpha / r) / mu) * dx / sqrt (dx\<^sup>2 + dy\<^sup>2)),
                   Fin (sqrt (2 * (E + alpha / r) / mu) * dy / sqrt (dx\<^sup>2 + dy\<^sup>2)))"
      unfolding u arrow_Fin[OF t] v using n0 by simp
    have "(sqrt (2 * (E + alpha / r) / mu) * dx / sqrt (dx\<^sup>2 + dy\<^sup>2))\<^sup>2
            + (sqrt (2 * (E + alpha / r) / mu) * dy / sqrt (dx\<^sup>2 + dy\<^sup>2))\<^sup>2
        = (sqrt (2 * (E + alpha / r) / mu))\<^sup>2"
      by (rule unit_tangent_scaled[OF t])
    also have "\<dots> = 2 * (E + alpha / r) / mu"
      using rad by simp
    finally show "update_velocity E alpha mu (map Fin xs) (map Fin ys) i
            = Inr (Fin (sqrt (2 * (E + alpha / r) / mu) * dx / sqrt (dx\<^sup>2 + dy\<^sup>2)),
                   Fin (sqrt (2 * (E + alpha / r) / mu) * dy / sqrt (dx\<^sup>2 + dy\<^sup>2)))
          \<and> (sqrt (2 * (E + alpha / r) / mu) * dx / sqrt (dx\<^sup>2 + dy\<^sup>2))\<^sup>2
            + (sqrt (2 * (E + alpha / r) / mu) * dy / sqrt (dx\<^sup>2 + dy\<^sup>2))\<^sup>2
            = 2 * (E + alpha / r) / mu"
      using res by blast
  qed
  from u c1 c2 c3 c4 show ?thesis
    by (intro conjI)
qed

theorem update_velocity_edge_cases_witness:
  "update_velocity 0 6 1 (map Fin [3, 0]) (map Fin [0, 4]) 0 = Inr (Fin (- (6 / 5)), Fin (8 / 5))
   \<and> update_velocity 0 6 1 (map Fin [3, 3]) (map Fin [0, 0]) 0 = Inr (Fin 0, Fin 0)"
proof -
  have l: "length [0, 4 :: real] = length [3, 0 :: real]" "length [0, 0 :: real] = length [3, 3 :: real]"
    by simp_all
  have i: "(0::int) \<le> 0" "(0::int) < int (length [3, 0 :: real])" "(0::int) < int (length [3, 3 :: real])"
    by simp_all
  note moving = update_velocity_edge_cases[OF l(1) i(1) i(2), of 0 6 1,
      THEN conjunct2, THEN conjunct2, THEN conjunct2, THEN conjunct2]
  note still = update_velocity_edge_cases[OF l(2) i(1) i(3), of 0 6 1,
      THEN conjunct2, THEN conjunct2, THEN conjunct1]
  have "update_velocity 0 6 1 (map Fin [3, 0]) (map Fin [0, 4]) 0 = Inr (Fin (- (6 / 5)), Fin (8 / 5))"
    using moving by (simp add: sqrt_9 sqrt_25 sqrt_4)
  moreover have "update_velocity 0 6 1 (map Fin [3, 3]) (map Fin [0, 0]) 0 = Inr (Fin 0, Fin 0)"
    using still by simp
  ultimately show ?thesis
    by simp
qed

section \<open>The sample angles (C9)\<close>

text \<open>
  C9, as the claim states it, fails: \<^verbatim>\<open>np.linspace(0, 2 * np.pi, 1000)\<close> keeps its end point,
  so the last of the 1000 angles is \<open>2\<pi>\<close> itself.
\<close>

theorem theta_full_ends_at_two_pi:
  "length theta_full = 1000 \<and> theta_full ! 999 = 2 * pi \<and> 2 * pi \<in> set theta_full"
proof -
  have n: "theta_full ! 999 = 2 * pi"
    by (simp add: nth_theta_full)
  have "theta_full ! 999 \<in> set theta_full"
    by (rule nth_mem) (simp add: length_theta_full)
  then show ?thesis
    by (simp add: n length_theta_full)
qed

text \<open>
  C9, amended: the angle array has exactly 1000 entries, evenly spaced with the constant
  step \<open>2\<pi>/999\<close> over the closed interval from 0 to \<open>2\<pi>\<close>; the first is 0 and the last is
  \<open>2\<pi>\<close>. The animated script samples the same array.
\<close>

theorem theta_full_evenly_spaced:
  "length theta_full = 1000
   \<and> (\<forall>i < 999. theta_full ! Suc i - theta_full ! i = 2 * pi / 999)
   \<and> theta_full ! 0 = 0 \<and> last theta_full = 2 * pi
   \<and> (\<forall>t \<in> set theta_full. 0 \<le> t \<and> t \<le> 2 * pi)
   \<and> theta_full = linspace 0 (2 * pi) 1000"
proof -
  have step: "\<forall>i < 999. theta_full ! Suc i - theta_full ! i = 2 * pi / 999"
    by (simp add: nth_theta_full algebra_simps)
  have "theta_full \<noteq> []"
    using length_theta_full by auto
  then have "last theta_full = theta_full ! 999"
    by (simp add: last_conv_nth length_theta_full)
  then have l: "last theta_full = 2 * pi"
    by (simp add: nth_theta_full)
  show ?thesis
    using step l theta_full_range
    by (simp add: length_theta_full nth_theta_full theta_full_def[symmetric])
qed

theorem theta_full_evenly_spaced_witness:
  "theta_full ! Suc 0 - theta_full ! 0 = 2 * pi / 999
   \<and> 0 \<le> theta_full ! 999 \<and> theta_full ! 999 \<le> 2 * pi"
proof -
  have m: "theta_full ! 999 \<in> set theta_full"
    by (rule nth_mem) (simp add: length_theta_full)
  have z: "(0::nat) < 999"
    by simp
  from theta_full_evenly_spaced z have "theta_full ! Suc 0 - theta_full ! 0 = 2 * pi / 999"
    by blast
  moreover from theta_full_evenly_spaced m have "0 \<le> theta_full ! 999 \<and> theta_full ! 999 \<le> 2 * pi"
    by blast
  ultimately show ?thesis
    by simp
qed

section \<open>The label of the orbit (C3)\<close>

lemma orbit_type_cases:
  "orbit_type e =
     (if e < 1 then ''Ellipse'' else if e \<le> 1 + 1001 / 100000 then ''Parabola'' else ''Hyperbola'')"
  by (simp add: orbit_type_def isclose_def)

text \<open>
  C3, as the claim states it, fails at eccentricity 0.99: the test \<open>epsilon < 1\<close> comes
  first, so the label is Ellipse, and the tolerance of \<^verbatim>\<open>np.isclose\<close> is only reached from
  1 upwards.
\<close>

theorem orbit_type_099_is_ellipse:
  "orbit_type (99 / 100) = ''Ellipse'' \<and> orbit_type (99 / 100) \<noteq> ''Parabola''"
  by (simp add: orbit_type_def)

text \<open>
  C3, amended: eccentricity exactly 1 is labelled Parabola, 0.99 is labelled Ellipse, 0.5
  is labelled Ellipse and 1.5 is labelled Hyperbola.
\<close>

theorem orbit_type_boundaries:
  "orbit_type 1 = ''Parabola'' \<and> orbit_type (99 / 100) = ''Ellipse''
   \<and> orbit_type (1 / 2) = ''Ellipse'' \<and> orbit_type (3 / 2) = ''Hyperbola''"
  by (simp add: orbit_type_def isclose_def)

end
